theory Spec2Isabelle
  imports Complex_Main "HOL-Library.Log_Nat"
begin

section \<open>The post-update pipeline\<close>

text \<open>
  A shallow embedding of the TypeScript post-update endpoint: the route handler
  (\<open>route.ts\<close>), the orchestrator and its helpers (\<open>post-update.service.ts\<close>), the
  status normalizer, the date helpers, the slug helper, the capability checks, the
  response builder and the query modules they call.

  Conventions of the model.
  \<^item> A JavaScript number that the code uses as an identifier or counter is an \<open>int\<close>.
    The GMT offset is the only fractional number: a double, that is a \<open>rat\<close> that an IEEE
    binary64 number represents, with \<open>None\<close> for \<open>NaN\<close> and the infinities. Every product, sum
    and difference with it is rounded to the nearest double, ties to even.
  \<^item> \<open>undefined\<close> and \<open>null\<close> are \<open>None\<close>; a field that may be absent or \<open>null\<close> is an
    option of an option.
  \<^item> A table is the list of its rows; \<open>LIMIT 1\<close> and \<open>rows[0]\<close> take the first row of the
    list that matches. String comparison in a \<open>WHERE\<close> clause is equality.
  \<^item> An async function that reads or writes through the connection takes the database
    and returns the new one where it writes.
  \<^item> A \<open>WpError\<close> is its code and the HTTP status in \<open>data.status\<close>; the human-readable
    message is not part of the model.
  \<^item> Built-ins of the JavaScript runtime and third-party libraries (date parsing and the
    UTC calendar getters of \<open>Date\<close>, \<open>parseFloat\<close>, \<open>parseInt\<close>, the PHP
    serialization codec) and the clock of the database server are fields of an
    environment record \<open>JsEnv\<close>. So is the authenticator (\<open>authenticate.ts\<close>, built on
    base64 decoding and bcrypt): the update flow reads only whether it yields a
    principal, and which.
\<close>

subsection \<open>Numbers as text\<close>

text \<open>\<open>String(n)\<close> and a template literal \<open>${n}\<close> for an integer \<open>n\<close>: decimal digits.\<close>

definition digitChar :: "nat \<Rightarrow> char" where
  "digitChar d = ''0123456789'' ! d"

fun showNat :: "nat \<Rightarrow> string" where
  "showNat n = (if n < 10 then [digitChar n] else showNat (n div 10) @ [digitChar (n mod 10)])"

declare showNat.simps [simp del]

definition showInt :: "int \<Rightarrow> string" where
  "showInt i = (if i < 0 then CHR ''-'' # showNat (nat (- i)) else showNat (nat i))"

text \<open>\<open>String(n).padStart(2, '0')\<close>\<close>

definition padStart2 :: "string \<Rightarrow> string" where
  "padStart2 s = replicate (2 - length s) CHR ''0'' @ s"

subsection \<open>Errors and principals\<close>

record WpError =
  code :: string
  data_status :: int

record AuthenticatedUser =
  user_id :: int
  login :: string
  email :: string
  roles :: "string list"
  capabilities :: "string \<rightharpoonup> bool"
  allcaps :: "string \<rightharpoonup> bool"

text \<open>\<open>user.allcaps[c]\<close> read as a condition: truthy only when the entry is \<open>true\<close>.\<close>

definition hasCap :: "AuthenticatedUser \<Rightarrow> string \<Rightarrow> bool" where
  "hasCap user c = (allcaps user c = Some True)"

text \<open>\<open>restAuthorizationRequiredCode\<close> (wp-error.ts)\<close>

definition restAuthorizationRequiredCode :: "bool \<Rightarrow> int" where
  "restAuthorizationRequiredCode isAuthenticated = (if isAuthenticated then 403 else 401)"

subsection \<open>Status normalizer (validation/status.ts)\<close>

definition validateAndNormalizeStatus :: "string \<Rightarrow> AuthenticatedUser \<Rightarrow> WpError + string" where
  "validateAndNormalizeStatus postStatus user =
     (if postStatus = ''draft'' \<or> postStatus = ''pending'' then Inr postStatus
      else if postStatus = ''private'' then
        (if \<not> hasCap user ''publish_posts''
         then Inl \<lparr>code = ''rest_cannot_publish'',
                   data_status = (if hasCap user ''edit_posts'' then 403 else 401)\<rparr>
         else Inr postStatus)
      else if postStatus = ''publish'' \<or> postStatus = ''future'' then
        (if \<not> hasCap user ''publish_posts''
         then Inl \<lparr>code = ''rest_cannot_publish'',
                   data_status = (if hasCap user ''edit_posts'' then 403 else 401)\<rparr>
         else Inr postStatus)
      else Inr ''draft'')"

subsection \<open>Request body and its schema (validation/post-update-schema.ts)\<close>

text \<open>A title, content or excerpt: a bare string or an object with a \<open>raw\<close> property.\<close>

datatype RawField = Plain string | RawObject string

text \<open>
  The body as \<open>request.json()\<close> delivers it, for payloads whose recognized fields have the
  JSON type the schema expects; \<open>unrecognized\<close> lists the keys the schema does not know.
  A \<open>meta\<close> value is represented by its \<open>String(value)\<close> image, \<open>None\<close> for \<open>null\<close>; the list is
  in the order of \<open>Object.entries\<close>.
\<close>

record PostUpdateInput =
  title :: "RawField option"
  content :: "RawField option"
  excerpt :: "RawField option"
  status :: "string option"
  date :: "string option option"
  date_gmt :: "string option option"
  slug :: "string option"
  author :: "int option"
  password :: "string option"
  featured_media :: "int option"
  sticky :: "bool option"
  template :: "string option"
  format :: "string option"
  comment_status :: "string option"
  ping_status :: "string option"
  parent :: "int option"
  menu_order :: "int option"
  categories :: "int list option"
  tags :: "int list option"
  meta :: "(string \<times> string option) list option"
  unrecognized :: "string list"

definition optAll :: "('a \<Rightarrow> bool) \<Rightarrow> 'a option \<Rightarrow> bool" where
  "optAll P v = (case v of None \<Rightarrow> True | Some x \<Rightarrow> P x)"

definition statusEnum :: "string list" where
  "statusEnum = [''publish'', ''future'', ''draft'', ''pending'', ''private'', ''trash'']"

definition formatEnum :: "string list" where
  "formatEnum = [''standard'', ''aside'', ''chat'', ''gallery'', ''link'', ''image'', ''quote'',
                 ''status'', ''video'', ''audio'']"

text \<open>\<open>postUpdateSchema.safeParse(rawBody).success\<close>\<close>

definition postUpdateSchema_success :: "PostUpdateInput \<Rightarrow> bool" where
  "postUpdateSchema_success b =
     (optAll (\<lambda>s. s \<in> set statusEnum) (status b)
      \<and> optAll (\<lambda>n. 0 < n) (author b)
      \<and> optAll (\<lambda>n. 0 \<le> n) (featured_media b)
      \<and> optAll (\<lambda>s. s \<in> set formatEnum) (format b)
      \<and> optAll (\<lambda>s. s \<in> set [''open'', ''closed'']) (comment_status b)
      \<and> optAll (\<lambda>s. s \<in> set [''open'', ''closed'']) (ping_status b)
      \<and> optAll (\<lambda>n. 0 \<le> n) (parent b)
      \<and> optAll (list_all (\<lambda>n. 0 < n)) (categories b)
      \<and> optAll (list_all (\<lambda>n. 0 < n)) (tags b)
      \<and> unrecognized b = [])"

definition extractRawValue :: "RawField option \<Rightarrow> string option" where
  "extractRawValue field =
     (case field of None \<Rightarrow> None | Some (Plain s) \<Rightarrow> Some s | Some (RawObject s) \<Rightarrow> Some s)"

subsection \<open>Tables (types/index.ts and the query modules)\<close>

record WpPostRow =
  ID :: int
  post_author :: int
  post_date :: string
  post_date_gmt :: string
  post_content :: string
  post_title :: string
  post_excerpt :: string
  post_status :: string
  post_comment_status :: string
  post_ping_status :: string
  post_password :: string
  post_name :: string
  to_ping :: string
  pinged :: string
  post_modified :: string
  post_modified_gmt :: string
  post_content_filtered :: string
  post_parent :: int
  guid :: string
  post_menu_order :: int
  post_type :: string
  post_mime_type :: string
  comment_count :: int

text \<open>
  The columns \<open>comment_status\<close>, \<open>ping_status\<close> and \<open>menu_order\<close> of \<open>wp_posts\<close> carry the
  prefix \<open>post_\<close> here, because the request body has fields of the same names.
\<close>

record PostMetaRow =
  meta_id :: int
  meta_post_id :: int
  meta_key :: string
  meta_value :: string

record TermRow =
  term_id :: int
  term_name :: string
  term_slug :: string

record TermTaxonomyRow =
  tt_id :: int
  tt_term_id :: int
  taxonomy :: string
  tt_description :: string
  tt_parent :: int
  tt_count :: int

record TermRelationshipRow =
  object_id :: int
  tr_tt_id :: int
  term_order :: int

text \<open>\<open>users\<close> is the \<open>ID\<close> column of \<open>wp_users\<close>, the only one the update flow reads.\<close>

record Db =
  posts :: "WpPostRow list"
  postmeta :: "PostMetaRow list"
  options :: "(string \<times> string) list"
  terms :: "TermRow list"
  term_taxonomy :: "TermTaxonomyRow list"
  term_relationships :: "TermRelationshipRow list"
  users :: "int list"

text \<open>The column set of an update (\<open>WpPostUpdateData\<close>): every column optional. The
  fields carry the prefix \<open>u_\<close>, because a record cannot reuse the field names of
  \<open>WpPostRow\<close>.\<close>

record WpPostUpdateData =
  u_post_title :: "string option"
  u_post_content :: "string option"
  u_post_excerpt :: "string option"
  u_post_status :: "string option"
  u_post_date :: "string option"
  u_post_date_gmt :: "string option"
  u_post_name :: "string option"
  u_post_author :: "int option"
  u_post_password :: "string option"
  u_post_parent :: "int option"
  u_menu_order :: "int option"
  u_comment_status :: "string option"
  u_ping_status :: "string option"

definition emptyUpdateData :: WpPostUpdateData where
  "emptyUpdateData =
     \<lparr>u_post_title = None, u_post_content = None, u_post_excerpt = None, u_post_status = None,
      u_post_date = None, u_post_date_gmt = None, u_post_name = None, u_post_author = None,
      u_post_password = None, u_post_parent = None, u_menu_order = None,
      u_comment_status = None, u_ping_status = None\<rparr>"

subsection \<open>Runtime environment\<close>

text \<open>What \<open>unserialize\<close> of php-serialize returns, its elements already under \<open>Number\<close>
  (\<open>None\<close> for \<open>NaN\<close>).\<close>

datatype Unserialized =
  UnserializeThrows
  | UArray "int option list"
  | UObject "int option list"
  | UOther

text \<open>A computation that may throw.\<close>

datatype 'a Outcome = Returned 'a | Threw string

record JsEnv =
  dateParse :: "string \<Rightarrow> int option"
    \<comment> \<open>\<open>new Date(s).getTime()\<close>, \<open>None\<close> for \<open>NaN\<close>\<close>
  getUTCFullYear :: "int \<Rightarrow> int"
  getUTCMonth :: "int \<Rightarrow> int"
  getUTCDate :: "int \<Rightarrow> int"
  getUTCHours :: "int \<Rightarrow> int"
  getUTCMinutes :: "int \<Rightarrow> int"
  getUTCSeconds :: "int \<Rightarrow> int"
  parseFloat :: "string \<Rightarrow> rat option"
  parseInt :: "string \<Rightarrow> int option"
  serialize :: "int list \<Rightarrow> string"
  unserialize :: "string \<Rightarrow> Unserialized"
  authenticateRequest :: "string option \<Rightarrow> Db \<Rightarrow> AuthenticatedUser option Outcome"
    \<comment> \<open>\<open>null\<close> is \<open>None\<close>; a transport fault throws\<close>
  sqlNow :: string
    \<comment> \<open>\<open>NOW()\<close> of the statement that updates the post\<close>
  sqlUtcTimestamp :: string

subsection \<open>Options (db/queries/options.ts)\<close>

definition getOption :: "Db \<Rightarrow> string \<Rightarrow> string option" where
  "getOption db name = map_of (options db) name"

fun upsertOption :: "string \<Rightarrow> string \<Rightarrow> (string \<times> string) list \<Rightarrow> (string \<times> string) list" where
  "upsertOption name v [] = [(name, v)]"
| "upsertOption name v ((k, w) # rest) =
     (if k = name then (k, v) # rest else (k, w) # upsertOption name v rest)"

definition updateOption :: "Db \<Rightarrow> string \<Rightarrow> string \<Rightarrow> Db" where
  "updateOption db name v = db\<lparr>options := upsertOption name v (options db)\<rparr>"

definition positiveNumbers :: "int option list \<Rightarrow> int list" where
  "positiveNumbers xs = concat (map (\<lambda>n. case n of None \<Rightarrow> [] | Some i \<Rightarrow> if 0 < i then [i] else []) xs)"

definition getStickyPosts :: "JsEnv \<Rightarrow> Db \<Rightarrow> int list" where
  "getStickyPosts env db =
     (case getOption db ''sticky_posts'' of
        None \<Rightarrow> []
      | Some raw \<Rightarrow>
          if raw = [] then []
          else (case unserialize env raw of
                  UArray xs \<Rightarrow> positiveNumbers xs
                | UObject xs \<Rightarrow> positiveNumbers xs
                | UOther \<Rightarrow> []
                | UnserializeThrows \<Rightarrow> []))"

definition setStickyPosts :: "JsEnv \<Rightarrow> Db \<Rightarrow> int list \<Rightarrow> Db" where
  "setStickyPosts env db postIds = updateOption db ''sticky_posts'' (serialize env postIds)"

definition isSticky :: "JsEnv \<Rightarrow> Db \<Rightarrow> int \<Rightarrow> bool" where
  "isSticky env db postId = (postId \<in> set (getStickyPosts env db))"

subsection \<open>Post metadata (db/queries/postmeta.ts)\<close>

definition metaRowsOf :: "Db \<Rightarrow> int \<Rightarrow> string \<Rightarrow> PostMetaRow list" where
  "metaRowsOf db postId metaKey =
     filter (\<lambda>r. meta_post_id r = postId \<and> meta_key r = metaKey) (postmeta db)"

definition getPostMeta :: "Db \<Rightarrow> int \<Rightarrow> string \<Rightarrow> string option" where
  "getPostMeta db postId metaKey =
     (case metaRowsOf db postId metaKey of [] \<Rightarrow> None | r # _ \<Rightarrow> Some (meta_value r))"

text \<open>
  \<open>getAllPostMeta\<close> collects the rows into a plain object and writes a key only when
  \<open>key in meta\<close> is false. For a key with several rows the first value wins; a key that
  names a property of \<open>Object.prototype\<close> is \<open>in\<close> every plain object and is never
  written.
\<close>

definition objectPrototypeKeys :: "string list" where
  "objectPrototypeKeys =
     [''constructor'', ''__defineGetter__'', ''__defineSetter__'', ''hasOwnProperty'',
      ''__lookupGetter__'', ''__lookupSetter__'', ''isPrototypeOf'', ''propertyIsEnumerable'',
      ''toString'', ''valueOf'', ''__proto__'', ''toLocaleString'']"

definition getAllPostMeta :: "Db \<Rightarrow> int \<Rightarrow> (string \<rightharpoonup> string)" where
  "getAllPostMeta db postId =
     map_of (map (\<lambda>r. (meta_key r, meta_value r))
                 (filter (\<lambda>r. meta_post_id r = postId \<and> meta_key r \<notin> set objectPrototypeKeys)
                         (postmeta db)))"

text \<open>The id an \<open>INSERT\<close> gives a new metadata row: one more than the largest in the table.\<close>

definition nextMetaId :: "PostMetaRow list \<Rightarrow> int" where
  "nextMetaId rows = fold (\<lambda>r m. max m (meta_id r)) rows 0 + 1"

definition updatePostMeta :: "Db \<Rightarrow> int \<Rightarrow> string \<Rightarrow> string \<Rightarrow> Db" where
  "updatePostMeta db postId metaKey metaValue =
     (case metaRowsOf db postId metaKey of
        r # _ \<Rightarrow>
          db\<lparr>postmeta := map (\<lambda>x. if meta_id x = meta_id r then x\<lparr>meta_value := metaValue\<rparr> else x)
                               (postmeta db)\<rparr>
      | [] \<Rightarrow>
          db\<lparr>postmeta := postmeta db @
                 [\<lparr>meta_id = nextMetaId (postmeta db), meta_post_id = postId,
                   meta_key = metaKey, meta_value = metaValue\<rparr>]\<rparr>)"

definition deletePostMeta :: "Db \<Rightarrow> int \<Rightarrow> string \<Rightarrow> Db" where
  "deletePostMeta db postId metaKey =
     db\<lparr>postmeta := filter (\<lambda>r. \<not> (meta_post_id r = postId \<and> meta_key r = metaKey)) (postmeta db)\<rparr>"

subsection \<open>Taxonomy terms (db/queries/terms.ts)\<close>

text \<open>The relationship rows of an object in a taxonomy, joined with \<open>term_taxonomy\<close>.\<close>

definition currentRelations :: "Db \<Rightarrow> int \<Rightarrow> string \<Rightarrow> (TermRelationshipRow \<times> TermTaxonomyRow) list" where
  "currentRelations db objectId tax =
     concat (map (\<lambda>tr. map (\<lambda>tt. (tr, tt))
                           (filter (\<lambda>tt. tt_id tt = tr_tt_id tr \<and> taxonomy tt = tax) (term_taxonomy db)))
                 (filter (\<lambda>tr. object_id tr = objectId) (term_relationships db)))"

definition getObjectTerms :: "Db \<Rightarrow> int \<Rightarrow> string \<Rightarrow> TermRow list" where
  "getObjectTerms db objectId tax =
     concat (map (\<lambda>t. concat (map (\<lambda>tt. map (\<lambda>tr. t)
                                     (filter (\<lambda>tr. tr_tt_id tr = tt_id tt \<and> object_id tr = objectId)
                                             (term_relationships db)))
                               (filter (\<lambda>tt. tt_term_id tt = term_id t \<and> taxonomy tt = tax)
                                       (term_taxonomy db))))
                 (terms db))"

text \<open>One round of the insertion loop of \<open>setObjectTerms\<close>.\<close>

definition insertTermRelationship :: "int \<Rightarrow> string \<Rightarrow> Db \<Rightarrow> int \<Rightarrow> Db" where
  "insertTermRelationship objectId tax db termId =
     (case filter (\<lambda>tt. tt_term_id tt = termId \<and> taxonomy tt = tax) (term_taxonomy db) of
        [] \<Rightarrow> db
      | tt # _ \<Rightarrow>
          db\<lparr>term_relationships :=
               (if list_ex (\<lambda>tr. object_id tr = objectId \<and> tr_tt_id tr = tt_id tt) (term_relationships db)
                then term_relationships db
                else term_relationships db @
                       [\<lparr>object_id = objectId, tr_tt_id = tt_id tt, term_order = 0\<rparr>]),
             term_taxonomy :=
               map (\<lambda>x. if tt_id x = tt_id tt then x\<lparr>tt_count := tt_count x + 1\<rparr> else x)
                   (term_taxonomy db)\<rparr>)"

definition setObjectTerms :: "Db \<Rightarrow> int \<Rightarrow> int list \<Rightarrow> string \<Rightarrow> Db" where
  "setObjectTerms db objectId termIds tax =
     (let currentTtIds = map (\<lambda>(tr, tt). tr_tt_id tr) (currentRelations db objectId tax);
          db1 = (if currentTtIds \<noteq> []
                 then db\<lparr>term_relationships :=
                           filter (\<lambda>tr. \<not> (object_id tr = objectId \<and> tr_tt_id tr \<in> set currentTtIds))
                                  (term_relationships db),
                         term_taxonomy :=
                           map (\<lambda>x. if tt_id x \<in> set currentTtIds
                                     then x\<lparr>tt_count := max (tt_count x - 1) 0\<rparr> else x)
                               (term_taxonomy db)\<rparr>
                 else db)
      in fold (\<lambda>termId d. insertTermRelationship objectId tax d termId) termIds db1)"

definition termExists :: "Db \<Rightarrow> int \<Rightarrow> string \<Rightarrow> bool" where
  "termExists db termId tax =
     list_ex (\<lambda>t. term_id t = termId \<and>
                  list_ex (\<lambda>tt. tt_term_id tt = term_id t \<and> taxonomy tt = tax) (term_taxonomy db))
             (terms db)"

definition getPostFormatTermId :: "Db \<Rightarrow> string \<Rightarrow> int option" where
  "getPostFormatTermId db formatSlug =
     (case filter (\<lambda>t. term_slug t = ''post-format-'' @ formatSlug \<and>
                       list_ex (\<lambda>tt. tt_term_id tt = term_id t \<and> taxonomy tt = ''post_format'')
                               (term_taxonomy db))
                  (terms db) of
        [] \<Rightarrow> None
      | t # _ \<Rightarrow> Some (term_id t))"

subsection \<open>Posts (db/queries/posts.ts) and users\<close>

definition getPostById :: "Db \<Rightarrow> int \<Rightarrow> WpPostRow option" where
  "getPostById db i = find (\<lambda>r. ID r = i) (posts db)"

definition userExists :: "Db \<Rightarrow> int \<Rightarrow> bool" where
  "userExists db userId = (userId \<in> set (users db))"

definition orElse :: "'a option \<Rightarrow> 'a \<Rightarrow> 'a" where
  "orElse v d = (case v of None \<Rightarrow> d | Some x \<Rightarrow> x)"

text \<open>The \<open>SET\<close> clause built by \<open>updatePost\<close>, applied to one row.\<close>

definition applyUpdate :: "JsEnv \<Rightarrow> WpPostUpdateData \<Rightarrow> WpPostRow \<Rightarrow> WpPostRow" where
  "applyUpdate env d r =
     r\<lparr>post_title := orElse (u_post_title d) (post_title r),
       post_content := orElse (u_post_content d) (post_content r),
       post_excerpt := orElse (u_post_excerpt d) (post_excerpt r),
       post_status := orElse (u_post_status d) (post_status r),
       post_date := orElse (u_post_date d) (post_date r),
       post_date_gmt := orElse (u_post_date_gmt d) (post_date_gmt r),
       post_name := orElse (u_post_name d) (post_name r),
       post_author := orElse (u_post_author d) (post_author r),
       post_password := orElse (u_post_password d) (post_password r),
       post_parent := orElse (u_post_parent d) (post_parent r),
       post_menu_order := orElse (u_menu_order d) (post_menu_order r),
       post_comment_status := orElse (u_comment_status d) (post_comment_status r),
       post_ping_status := orElse (u_ping_status d) (post_ping_status r),
       post_modified := sqlNow env,
       post_modified_gmt := sqlUtcTimestamp env\<rparr>"

text \<open>\<open>updatePost\<close>: the flag is \<open>affectedRows > 0\<close>, the rows the \<open>WHERE\<close> clause finds.\<close>

definition updatePost :: "JsEnv \<Rightarrow> Db \<Rightarrow> int \<Rightarrow> WpPostUpdateData \<Rightarrow> bool \<times> Db" where
  "updatePost env db i d =
     (list_ex (\<lambda>r. ID r = i) (posts db),
      db\<lparr>posts := map (\<lambda>r. if ID r = i then applyUpdate env d r else r) (posts db)\<rparr>)"

definition checkSlugExists :: "Db \<Rightarrow> string \<Rightarrow> string \<Rightarrow> int \<Rightarrow> int \<Rightarrow> bool" where
  "checkSlugExists db slg postType excludePostId postParent =
     list_ex (\<lambda>r. post_name r = slg \<and> post_type r = postType \<and> ID r \<noteq> excludePostId
                  \<and> post_parent r = postParent)
             (posts db)"

definition isValidAttachment :: "Db \<Rightarrow> int \<Rightarrow> bool" where
  "isValidAttachment db attachmentId =
     list_ex (\<lambda>r. ID r = attachmentId \<and> post_type r = ''attachment'') (posts db)"

subsection \<open>Capabilities (auth/capabilities.ts)\<close>

definition mapMetaCap :: "string \<Rightarrow> AuthenticatedUser \<Rightarrow> WpPostRow \<Rightarrow> string list" where
  "mapMetaCap cap user post =
     (if cap = ''edit_post'' then
        (if post_author post = user_id user then
           (if post_status post = ''publish'' \<or> post_status post = ''future''
            then [''edit_published_posts'']
            else if post_status post = ''trash'' then [''edit_posts'']
            else [''edit_posts''])
         else
           [''edit_others_posts''] @
           (if post_status post = ''publish'' \<or> post_status post = ''future''
            then [''edit_published_posts'']
            else if post_status post = ''private'' then [''edit_private_posts'']
            else []))
      else [cap])"

text \<open>\<open>userCan\<close> with the post given, as every call of the update flow has it.\<close>

definition userCan :: "AuthenticatedUser \<Rightarrow> string \<Rightarrow> WpPostRow \<Rightarrow> bool" where
  "userCan user cap post =
     (if cap \<in> set [''edit_post'', ''delete_post'', ''read_post'']
      then list_all (\<lambda>c. allcaps user c = Some True) (mapMetaCap cap user post)
      else allcaps user cap = Some True)"

definition checkIsPostTypeAllowed :: "string \<Rightarrow> bool" where
  "checkIsPostTypeAllowed postType = (postType \<in> set [''post'', ''page'', ''attachment''])"

definition checkUpdatePermission :: "AuthenticatedUser \<Rightarrow> WpPostRow \<Rightarrow> bool" where
  "checkUpdatePermission user post =
     (if \<not> checkIsPostTypeAllowed (post_type post) then False
      else userCan user ''edit_post'' post)"

subsection \<open>Decimal rendering is injective\<close>


lemma digitChar_inj: "a < 10 \<Longrightarrow> b < 10 \<Longrightarrow> digitChar a = digitChar b \<Longrightarrow> a = b"
proof -
  assume a: "a < 10" and b: "b < 10" and e: "digitChar a = digitChar b"
  have da: "a \<in> {0,1,2,3,4,5,6,7,8,9}" using a by auto
  have db: "b \<in> {0,1,2,3,4,5,6,7,8,9}" using b by auto
  show ?thesis using da db e by (auto simp: digitChar_def)
qed

lemma showNat_nonempty: "showNat n \<noteq> []"
  by (subst showNat.simps) simp

lemma showNat_inj: "showNat n = showNat m \<Longrightarrow> n = m"
proof (induction n arbitrary: m rule: showNat.induct)
  case (1 n)
  show ?case
  proof (cases "n < 10")
    case True
    show ?thesis
    proof (cases "m < 10")
      case mt: True
      from "1.prems" True mt have "digitChar n = digitChar m"
        by (simp add: showNat.simps[of n] showNat.simps[of m])
      then show ?thesis using True mt digitChar_inj by blast
    next
      case mf: False
      from "1.prems" True mf have "[digitChar n] = showNat (m div 10) @ [digitChar (m mod 10)]"
        by (simp add: showNat.simps[of n] showNat.simps[of m])
      then show ?thesis using showNat_nonempty[of "m div 10"] by simp
    qed
  next
    case False
    show ?thesis
    proof (cases "m < 10")
      case mt: True
      from "1.prems" False mt have "showNat (n div 10) @ [digitChar (n mod 10)] = [digitChar m]"
        by (simp add: showNat.simps[of n] showNat.simps[of m])
      then show ?thesis using showNat_nonempty[of "n div 10"] by simp
    next
      case mf: False
      from "1.prems" False mf
      have e: "showNat (n div 10) @ [digitChar (n mod 10)] = showNat (m div 10) @ [digitChar (m mod 10)]"
        by (simp add: showNat.simps[of n] showNat.simps[of m])
      then have e1: "showNat (n div 10) = showNat (m div 10)"
        and e2: "digitChar (n mod 10) = digitChar (m mod 10)" by simp_all
      from "1.IH"[OF False e1] have d: "n div 10 = m div 10" .
      from e2 have "n mod 10 = m mod 10" by (auto intro: digitChar_inj)
      with d show ?thesis by (metis div_mult_mod_eq)
    qed
  qed
qed

subsection \<open>Dates (validation/date.ts)\<close>

subsubsection \<open>Double arithmetic\<close>

text \<open>\<open>2\<close> to an integer power.\<close>

definition pow2 :: "int \<Rightarrow> rat" where
  "pow2 e = (if 0 \<le> e then 2 ^ nat e else 1 / 2 ^ nat (- e))"

text \<open>The binary exponent of a number that is not zero: the greatest \<open>e\<close> with
  \<open>2 ^ e \<le> |x|\<close>.\<close>

definition binaryExponent :: "rat \<Rightarrow> int" where
  "binaryExponent x =
     (case quotient_of \<bar>x\<bar> of
        (a, b) \<Rightarrow>
          (let d = bitlen a - bitlen b in if pow2 d \<le> \<bar>x\<bar> then d else d - 1))"

text \<open>The nearest integer, the even one of two that are equally near.\<close>

definition roundHalfEven :: "rat \<Rightarrow> int" where
  "roundHalfEven x =
     (let f = \<lfloor>x\<rfloor>; r = x - of_int f
      in if r < 1 / 2 then f else if 1 / 2 < r then f + 1 else if even f then f else f + 1)"

text \<open>
  The double nearest to an exact result: 53 significant bits for a normal number, the
  spacing \<open>2 ^ -1074\<close> below \<open>2 ^ -1022\<close>, and an infinity (here \<open>None\<close>) when the rounded
  value reaches \<open>2 ^ 1024\<close>.
\<close>

definition roundToDouble :: "rat \<Rightarrow> rat option" where
  "roundToDouble x =
     (if x = 0 then Some 0
      else (let q = max (binaryExponent x) (- 1022) - 52;
                y = of_int (roundHalfEven (x / pow2 q)) * pow2 q
            in if 1024 \<le> binaryExponent y then None else Some y))"

text \<open>The operators \<open>*\<close>, \<open>+\<close> and \<open>-\<close> on numbers.\<close>

definition numMul :: "rat option \<Rightarrow> rat option \<Rightarrow> rat option" where
  "numMul a b =
     (case a of None \<Rightarrow> None
      | Some x \<Rightarrow> (case b of None \<Rightarrow> None | Some y \<Rightarrow> roundToDouble (x * y)))"

definition numAdd :: "rat option \<Rightarrow> rat option \<Rightarrow> rat option" where
  "numAdd a b =
     (case a of None \<Rightarrow> None
      | Some x \<Rightarrow> (case b of None \<Rightarrow> None | Some y \<Rightarrow> roundToDouble (x + y)))"

definition numSub :: "rat option \<Rightarrow> rat option \<Rightarrow> rat option" where
  "numSub a b =
     (case a of None \<Rightarrow> None
      | Some x \<Rightarrow> (case b of None \<Rightarrow> None | Some y \<Rightarrow> roundToDouble (x - y)))"

subsubsection \<open>Date objects\<close>

text \<open>
  A \<open>Date\<close> object is its time value in milliseconds, \<open>None\<close> for an invalid date.
  \<open>new Date(x)\<close> for a number \<open>x\<close> truncates towards zero and rejects what lies outside
  the range of time values.
\<close>

definition truncRat :: "rat \<Rightarrow> int" where
  "truncRat q = (if 0 \<le> q then \<lfloor>q\<rfloor> else \<lceil>q\<rceil>)"

definition newDate :: "rat option \<Rightarrow> int option" where
  "newDate x =
     (case x of
        None \<Rightarrow> None
      | Some q \<Rightarrow> if \<bar>q\<bar> \<le> 8640000000000000 then Some (truncRat q) else None)"

text \<open>\<open>gmtOffset * 60 * 60 * 1000\<close>, multiplied from the left as JavaScript does.\<close>

definition offsetMillis :: "rat option \<Rightarrow> rat option" where
  "offsetMillis gmtOffset = numMul (numMul (numMul gmtOffset (Some 60)) (Some 60)) (Some 1000)"

text \<open>\<open>t + gmtOffset * 60 * 60 * 1000\<close> and \<open>t - gmtOffset * 60 * 60 * 1000\<close> for the time
  value \<open>t\<close> of a valid date.\<close>

definition plusOffset :: "int \<Rightarrow> rat option \<Rightarrow> rat option" where
  "plusOffset t gmtOffset = numAdd (Some (of_int t)) (offsetMillis gmtOffset)"

definition minusOffset :: "int \<Rightarrow> rat option \<Rightarrow> rat option" where
  "minusOffset t gmtOffset = numSub (Some (of_int t)) (offsetMillis gmtOffset)"

definition formatMysqlDatetime :: "JsEnv \<Rightarrow> int option \<Rightarrow> string" where
  "formatMysqlDatetime env d =
     (case d of
        None \<Rightarrow> ''NaN-NaN-NaN NaN:NaN:NaN''
      | Some t \<Rightarrow>
          showInt (getUTCFullYear env t) @ ''-'' @
          padStart2 (showInt (getUTCMonth env t + 1)) @ ''-'' @
          padStart2 (showInt (getUTCDate env t)) @ '' '' @
          padStart2 (showInt (getUTCHours env t)) @ '':'' @
          padStart2 (showInt (getUTCMinutes env t)) @ '':'' @
          padStart2 (showInt (getUTCSeconds env t)))"

text \<open>The pair is \<open>[localDatetime, utcDatetime]\<close>.\<close>

definition restGetDateWithGmt :: "JsEnv \<Rightarrow> string \<Rightarrow> bool \<Rightarrow> rat option \<Rightarrow> (string \<times> string) option" where
  "restGetDateWithGmt env dateString isUtc gmtOffset =
     (case dateParse env dateString of
        None \<Rightarrow> None
      | Some t \<Rightarrow>
          if isUtc
          then Some (formatMysqlDatetime env (newDate (plusOffset t gmtOffset)),
                     formatMysqlDatetime env (Some t))
          else Some (formatMysqlDatetime env (Some t),
                     formatMysqlDatetime env (newDate (minusOffset t gmtOffset))))"

definition zeroDate :: string where
  "zeroDate = ''0000-00-00 00:00:00''"

text \<open>\<open>s.replace(' ', 'T')\<close>: the first space only.\<close>

fun replaceSpaceByT :: "string \<Rightarrow> string" where
  "replaceSpaceByT [] = []"
| "replaceSpaceByT (c # cs) = (if c = CHR '' '' then CHR ''T'' # cs else c # replaceSpaceByT cs)"

definition mysqlToRfc3339 :: "string \<Rightarrow> string option" where
  "mysqlToRfc3339 datetime =
     (if datetime = [] \<or> datetime = zeroDate then None else Some (replaceSpaceByT datetime))"

text \<open>\<open>gmtOffsetStr ? parseFloat(gmtOffsetStr) : 0\<close> on the option \<open>gmt_offset\<close>\<close>

definition readGmtOffset :: "JsEnv \<Rightarrow> Db \<Rightarrow> rat option" where
  "readGmtOffset env db =
     (case getOption db ''gmt_offset'' of
        None \<Rightarrow> Some 0
      | Some s \<Rightarrow> if s = [] then Some 0 else parseFloat env s)"

subsection \<open>Unique slugs (validation/slug.ts)\<close>

text \<open>The template literal \<open>${desiredSlug}-${suffix}\<close>\<close>

definition suffixed :: "string \<Rightarrow> nat \<Rightarrow> string" where
  "suffixed desiredSlug suffix = desiredSlug @ ''-'' @ showNat suffix"

lemma suffixed_inj: "suffixed d a = suffixed d b \<Longrightarrow> a = b"
  by (simp add: suffixed_def showNat_inj)

text \<open>The suffixes from \<open>suffix\<close> on whose slug is taken; the loop terminates because
  this set is finite and shrinks.\<close>

definition takenFrom :: "Db \<Rightarrow> string \<Rightarrow> string \<Rightarrow> int \<Rightarrow> int \<Rightarrow> nat \<Rightarrow> nat set" where
  "takenFrom db desiredSlug postType postId postParent suffix =
     {k. suffix \<le> k \<and> checkSlugExists db (suffixed desiredSlug k) postType postId postParent}"

lemma finite_takenFrom: "finite (takenFrom db d ty i p s)"
proof -
  have sub: "suffixed d ` takenFrom db d ty i p s \<subseteq> set (map post_name (posts db))"
    by (auto simp: takenFrom_def checkSlugExists_def list_ex_iff intro: rev_image_eqI)
  have "finite (suffixed d ` takenFrom db d ty i p s)"
    by (rule finite_subset[OF sub]) simp
  moreover have "inj_on (suffixed d) (takenFrom db d ty i p s)"
    by (auto simp: inj_on_def dest: suffixed_inj)
  ultimately show ?thesis by (rule finite_imageD)
qed

lemma takenFrom_step:
  "takenFrom db d ty i p s =
     (if checkSlugExists db (suffixed d s) ty i p then insert s (takenFrom db d ty i p (Suc s))
      else takenFrom db d ty i p (Suc s))"
  by (auto simp: takenFrom_def Suc_le_eq le_less intro: le_neq_implies_less)

function uniquePostSlugLoop :: "Db \<Rightarrow> string \<Rightarrow> int \<Rightarrow> string \<Rightarrow> int \<Rightarrow> string \<Rightarrow> nat \<Rightarrow> string" where
  "uniquePostSlugLoop db desiredSlug postId postType postParent slg suffix =
     (if checkSlugExists db slg postType postId postParent
      then uniquePostSlugLoop db desiredSlug postId postType postParent
             (suffixed desiredSlug suffix) (Suc suffix)
      else slg)"
  by pat_completeness auto
termination
proof (relation "measure (\<lambda>(db, d, i, ty, p, slg, s).
          2 * card (takenFrom db d ty i p s) + (if checkSlugExists db slg ty i p then 1 else 0))")
  show "wf (measure (\<lambda>(db, d, i, ty, p, slg, s).
          2 * card (takenFrom db d ty i p s) + (if checkSlugExists db slg ty i p then 1 else 0)))"
    by simp
next
  fix db :: Db and desiredSlug :: string and postId :: int and postType :: string
    and postParent :: int and slg :: string and suffix :: nat
  assume ex: "checkSlugExists db slg postType postId postParent"
  have fin: "finite (takenFrom db desiredSlug postType postId postParent (Suc suffix))"
    by (rule finite_takenFrom)
  have notin: "suffix \<notin> takenFrom db desiredSlug postType postId postParent (Suc suffix)"
    by (simp add: takenFrom_def)
  show "((db, desiredSlug, postId, postType, postParent, suffixed desiredSlug suffix, Suc suffix),
         (db, desiredSlug, postId, postType, postParent, slg, suffix))
        \<in> measure (\<lambda>(db, d, i, ty, p, slg, s).
          2 * card (takenFrom db d ty i p s) + (if checkSlugExists db slg ty i p then 1 else 0))"
    using ex fin notin
    by (simp add: takenFrom_step[of db desiredSlug postType postId postParent suffix])
qed

declare uniquePostSlugLoop.simps [simp del]

definition uniquePostSlug :: "Db \<Rightarrow> string \<Rightarrow> int \<Rightarrow> string \<Rightarrow> string \<Rightarrow> int \<Rightarrow> string" where
  "uniquePostSlug db desiredSlug postId postStatus postType postParent =
     uniquePostSlugLoop db desiredSlug postId postType postParent desiredSlug 2"

subsection \<open>Permission checks (post-update.service.ts)\<close>

text \<open>
  \<open>checkAssignTermsPermission\<close>. Its loop over \<open>body.categories\<close> only reads
  \<open>termExists\<close> and continues, with no effect on the result.
\<close>

definition checkAssignTermsPermission :: "Db \<Rightarrow> PostUpdateInput \<Rightarrow> AuthenticatedUser \<Rightarrow> bool" where
  "checkAssignTermsPermission db body user =
     (if (case categories body of None \<Rightarrow> False | Some cs \<Rightarrow> cs \<noteq> [])
         \<and> \<not> hasCap user ''assign_categories'' \<and> \<not> hasCap user ''manage_categories''
         \<and> \<not> hasCap user ''edit_posts''
      then False
      else if (case tags body of None \<Rightarrow> False | Some ts \<Rightarrow> ts \<noteq> [])
         \<and> \<not> hasCap user ''assign_post_tags'' \<and> \<not> hasCap user ''manage_post_tags''
         \<and> \<not> hasCap user ''edit_posts''
      then False
      else True)"

definition checkPermissions :: "Db \<Rightarrow> WpPostRow \<Rightarrow> PostUpdateInput \<Rightarrow> AuthenticatedUser \<Rightarrow> WpError option" where
  "checkPermissions db post body user =
     (if \<not> checkUpdatePermission user post
      then Some \<lparr>code = ''rest_cannot_edit'', data_status = 403\<rparr>
      else if author body \<noteq> None \<and> author body \<noteq> Some (user_id user)
              \<and> \<not> hasCap user ''edit_others_posts''
      then Some \<lparr>code = ''rest_cannot_edit_others'', data_status = 403\<rparr>
      else if sticky body = Some True \<and> \<not> hasCap user ''edit_others_posts''
              \<and> \<not> hasCap user ''publish_posts''
      then Some \<lparr>code = ''rest_cannot_assign_sticky'', data_status = 403\<rparr>
      else if \<not> checkAssignTermsPermission db body user
      then Some \<lparr>code = ''rest_cannot_assign_term'', data_status = 403\<rparr>
      else None)"

subsection \<open>Preparing the column set (prepareItemForDatabase)\<close>

text \<open>The blocks of \<open>prepareItemForDatabase\<close>, in the order of the source.\<close>

definition prepareContent :: "PostUpdateInput \<Rightarrow> WpPostUpdateData \<Rightarrow> WpPostUpdateData" where
  "prepareContent body d =
     d\<lparr>u_post_title := extractRawValue (title body),
       u_post_content := extractRawValue (content body),
       u_post_excerpt := extractRawValue (excerpt body)\<rparr>"

definition prepareStatus ::
  "PostUpdateInput \<Rightarrow> WpPostRow \<Rightarrow> AuthenticatedUser \<Rightarrow> WpPostUpdateData \<Rightarrow> WpError + WpPostUpdateData" where
  "prepareStatus body existingPost user d =
     (case status body of
        None \<Rightarrow> Inr d
      | Some st \<Rightarrow>
          if st \<noteq> post_status existingPost
          then (case validateAndNormalizeStatus st user of
                  Inl e \<Rightarrow> Inl e
                | Inr statusResult \<Rightarrow> Inr (d\<lparr>u_post_status := Some statusResult\<rparr>))
          else Inr d)"

definition setDates :: "(string \<times> string) option \<Rightarrow> WpPostUpdateData \<Rightarrow> WpPostUpdateData" where
  "setDates dateData d =
     (case dateData of
        None \<Rightarrow> d
      | Some (l, u) \<Rightarrow> d\<lparr>u_post_date := Some l, u_post_date_gmt := Some u\<rparr>)"

definition prepareDate :: "JsEnv \<Rightarrow> Db \<Rightarrow> PostUpdateInput \<Rightarrow> WpPostUpdateData \<Rightarrow> WpPostUpdateData" where
  "prepareDate env db body d =
     (let gmtOffset = readGmtOffset env db in
      case date body of
        Some None \<Rightarrow> d\<lparr>u_post_date := Some zeroDate, u_post_date_gmt := Some zeroDate\<rparr>
      | Some (Some s) \<Rightarrow> setDates (restGetDateWithGmt env s False gmtOffset) d
      | None \<Rightarrow>
          (case date_gmt body of
             Some None \<Rightarrow> d\<lparr>u_post_date := Some zeroDate, u_post_date_gmt := Some zeroDate\<rparr>
           | Some (Some s) \<Rightarrow> setDates (restGetDateWithGmt env s True gmtOffset) d
           | None \<Rightarrow> d))"

definition prepareSlug :: "PostUpdateInput \<Rightarrow> WpPostUpdateData \<Rightarrow> WpPostUpdateData" where
  "prepareSlug body d = (case slug body of None \<Rightarrow> d | Some s \<Rightarrow> d\<lparr>u_post_name := Some s\<rparr>)"

definition prepareAuthor ::
  "Db \<Rightarrow> PostUpdateInput \<Rightarrow> AuthenticatedUser \<Rightarrow> WpPostUpdateData \<Rightarrow> WpError + WpPostUpdateData" where
  "prepareAuthor db body user d =
     (case author body of
        None \<Rightarrow> Inr d
      | Some authorId \<Rightarrow>
          if authorId \<noteq> user_id user \<and> \<not> userExists db authorId
          then Inl \<lparr>code = ''rest_invalid_author'', data_status = 400\<rparr>
          else Inr (d\<lparr>u_post_author := Some authorId\<rparr>))"

definition preparePassword ::
  "JsEnv \<Rightarrow> Db \<Rightarrow> PostUpdateInput \<Rightarrow> WpPostRow \<Rightarrow> WpPostUpdateData \<Rightarrow> WpError + WpPostUpdateData" where
  "preparePassword env db body existingPost d =
     (case password body of
        None \<Rightarrow> Inr d
      | Some pw \<Rightarrow>
          if pw \<noteq> [] \<and> sticky body = Some True
          then Inl \<lparr>code = ''rest_invalid_field'', data_status = 400\<rparr>
          else if pw \<noteq> [] \<and> isSticky env db (ID existingPost)
          then Inl \<lparr>code = ''rest_invalid_field'', data_status = 400\<rparr>
          else Inr (d\<lparr>u_post_password := Some pw\<rparr>))"

definition checkStickyPassword :: "PostUpdateInput \<Rightarrow> WpPostRow \<Rightarrow> WpError option" where
  "checkStickyPassword body existingPost =
     (if sticky body = Some True \<and> post_password existingPost \<noteq> []
      then Some \<lparr>code = ''rest_invalid_field'', data_status = 400\<rparr>
      else None)"

definition prepareParent :: "Db \<Rightarrow> PostUpdateInput \<Rightarrow> WpPostUpdateData \<Rightarrow> WpError + WpPostUpdateData" where
  "prepareParent db body d =
     (case parent body of
        None \<Rightarrow> Inr d
      | Some p \<Rightarrow>
          if p = 0 then Inr (d\<lparr>u_post_parent := Some 0\<rparr>)
          else (case getPostById db p of
                  None \<Rightarrow> Inl \<lparr>code = ''rest_post_invalid_id'', data_status = 400\<rparr>
                | Some parentPost \<Rightarrow> Inr (d\<lparr>u_post_parent := Some (ID parentPost)\<rparr>)))"

definition prepareRest :: "PostUpdateInput \<Rightarrow> WpPostUpdateData \<Rightarrow> WpPostUpdateData" where
  "prepareRest body d =
     (let d1 = (case menu_order body of None \<Rightarrow> d | Some v \<Rightarrow> d\<lparr>u_menu_order := Some v\<rparr>);
          d2 = (case comment_status body of None \<Rightarrow> d1 | Some v \<Rightarrow> d1\<lparr>u_comment_status := Some v\<rparr>)
      in (case ping_status body of None \<Rightarrow> d2 | Some v \<Rightarrow> d2\<lparr>u_ping_status := Some v\<rparr>))"

definition prepareItemForDatabase ::
  "JsEnv \<Rightarrow> Db \<Rightarrow> PostUpdateInput \<Rightarrow> WpPostRow \<Rightarrow> AuthenticatedUser \<Rightarrow> WpError + WpPostUpdateData" where
  "prepareItemForDatabase env db body existingPost user =
     (case prepareStatus body existingPost user (prepareContent body emptyUpdateData) of
        Inl e \<Rightarrow> Inl e
      | Inr d1 \<Rightarrow>
     (case prepareAuthor db body user (prepareSlug body (prepareDate env db body d1)) of
        Inl e \<Rightarrow> Inl e
      | Inr d2 \<Rightarrow>
     (case preparePassword env db body existingPost d2 of
        Inl e \<Rightarrow> Inl e
      | Inr d3 \<Rightarrow>
     (case checkStickyPassword body existingPost of
        Some e \<Rightarrow> Inl e
      | None \<Rightarrow>
     (case prepareParent db body d3 of
        Inl e \<Rightarrow> Inl e
      | Inr d4 \<Rightarrow> Inr (prepareRest body d4))))))"

subsection \<open>Side effects of an update (post-update.service.ts)\<close>

definition handlePostFormat :: "Db \<Rightarrow> int \<Rightarrow> string \<Rightarrow> Db" where
  "handlePostFormat db postId fmt =
     (if fmt = ''standard'' \<or> fmt = [] then setObjectTerms db postId [] ''post_format''
      else (case getPostFormatTermId db fmt of
              None \<Rightarrow> db
            | Some termId \<Rightarrow>
                if termId \<noteq> 0 then setObjectTerms db postId [termId] ''post_format'' else db))"

definition handleFeaturedMedia :: "Db \<Rightarrow> int \<Rightarrow> int \<Rightarrow> WpError option \<times> Db" where
  "handleFeaturedMedia db featuredMedia postId =
     (if 0 < featuredMedia then
        (if \<not> isValidAttachment db featuredMedia
         then (Some \<lparr>code = ''rest_invalid_featured_media'', data_status = 400\<rparr>, db)
         else (None, updatePostMeta db postId ''_thumbnail_id'' (showInt featuredMedia)))
      else (None, deletePostMeta db postId ''_thumbnail_id''))"

text \<open>\<open>stickyPosts.splice(stickyPosts.indexOf(postId), 1)\<close>: the first occurrence goes.\<close>

definition handleStickyStatus :: "JsEnv \<Rightarrow> Db \<Rightarrow> int \<Rightarrow> bool \<Rightarrow> Db" where
  "handleStickyStatus env db postId stky =
     (let stickyPosts = getStickyPosts env db in
      if stky then
        (if postId \<notin> set stickyPosts then setStickyPosts env db (stickyPosts @ [postId]) else db)
      else
        (if postId \<in> set stickyPosts then setStickyPosts env db (remove1 postId stickyPosts) else db))"

definition handleTerms :: "Db \<Rightarrow> int \<Rightarrow> PostUpdateInput \<Rightarrow> Db" where
  "handleTerms db postId body =
     (let db1 = (case categories body of None \<Rightarrow> db | Some cs \<Rightarrow> setObjectTerms db postId cs ''category'')
      in (case tags body of None \<Rightarrow> db1 | Some ts \<Rightarrow> setObjectTerms db1 postId ts ''post_tag''))"

text \<open>Step 7f: every entry of \<open>body.meta\<close> that is not \<open>null\<close> is written.\<close>

definition handleMeta :: "Db \<Rightarrow> int \<Rightarrow> PostUpdateInput \<Rightarrow> Db" where
  "handleMeta db postId body =
     (case meta body of
        None \<Rightarrow> db
      | Some entries \<Rightarrow>
          fold (\<lambda>(k, v) d. case v of None \<Rightarrow> d | Some x \<Rightarrow> updatePostMeta d postId k x) entries db)"

subsection \<open>Response builder (post-response.service.ts)\<close>

text \<open>
  The response, its fields prefixed with \<open>r_\<close> and its nested objects flattened, without
  \<open>content.block_version\<close> (a regular-expression test on the content that no property
  below reads). \<open>featured_media\<close> is \<open>None\<close> when \<open>parseInt\<close> gives \<open>NaN\<close>. The last three
  fields are present in the \<open>edit\<close> context only.
\<close>

record WpPostResponse =
  r_id :: int
  r_date :: "string option"
  r_date_gmt :: "string option"
  r_guid :: string
  r_modified :: string
  r_modified_gmt :: string
  r_slug :: string
  r_status :: string
  r_type :: string
  r_link :: string
  r_title_raw :: string
  r_title_rendered :: string
  r_content_raw :: string
  r_content_rendered :: string
  r_content_protected :: bool
  r_excerpt_raw :: string
  r_excerpt_rendered :: string
  r_excerpt_protected :: bool
  r_author :: int
  r_featured_media :: "int option"
  r_comment_status :: string
  r_ping_status :: string
  r_sticky :: bool
  r_template :: string
  r_format :: string
  r_meta :: "string \<rightharpoonup> string"
  r_categories :: "int list"
  r_tags :: "int list"
  r_password :: "string option"
  r_permalink_template :: "string option"
  r_generated_slug :: "string option"

definition prepareDateGmt :: "JsEnv \<Rightarrow> string \<Rightarrow> string \<Rightarrow> rat option \<Rightarrow> string option" where
  "prepareDateGmt env dateGmt dateLocal gmtOffset =
     (if dateGmt = zeroDate then
        (case dateParse env (replaceSpaceByT dateLocal) of
           None \<Rightarrow> None
         | Some t \<Rightarrow>
             (case newDate (numSub (Some (of_int t)) (numMul gmtOffset (Some 3600000))) of
                None \<Rightarrow> Some ''NaN-NaN-NaNTNaN:NaN:NaN''
              | Some u \<Rightarrow>
                  Some (showInt (getUTCFullYear env u) @ ''-'' @
                        padStart2 (showInt (getUTCMonth env u + 1)) @ ''-'' @
                        padStart2 (showInt (getUTCDate env u)) @ ''T'' @
                        padStart2 (showInt (getUTCHours env u)) @ '':'' @
                        padStart2 (showInt (getUTCMinutes env u)) @ '':'' @
                        padStart2 (showInt (getUTCSeconds env u)))))
      else mysqlToRfc3339 dateGmt)"

definition getPostFormat :: "Db \<Rightarrow> int \<Rightarrow> string" where
  "getPostFormat db postId =
     (case getObjectTerms db postId ''post_format'' of
        [] \<Rightarrow> ''standard''
      | t # _ \<Rightarrow>
          if take 12 (term_slug t) = ''post-format-'' then drop 12 (term_slug t) else term_slug t)"

text \<open>\<open>siteUrl.replace(/\/$/, '')\<close>\<close>

definition stripTrailingSlash :: "string \<Rightarrow> string" where
  "stripTrailingSlash u = (if u \<noteq> [] \<and> last u = CHR ''/'' then butlast u else u)"

definition datePath :: "WpPostRow \<Rightarrow> string" where
  "datePath post =
     take 4 (post_date post) @ ''/'' @ take 2 (drop 5 (post_date post)) @ ''/'' @
     take 2 (drop 8 (post_date post))"

definition buildPermalink :: "string \<Rightarrow> WpPostRow \<Rightarrow> string" where
  "buildPermalink siteUrl post =
     (if post_status post = ''publish'' \<and> post_name post \<noteq> []
      then stripTrailingSlash siteUrl @ ''/'' @ datePath post @ ''/'' @ post_name post @ ''/''
      else stripTrailingSlash siteUrl @ ''/?p='' @ showInt (ID post))"

definition buildPermalinkTemplate :: "string \<Rightarrow> WpPostRow \<Rightarrow> string" where
  "buildPermalinkTemplate siteUrl post =
     stripTrailingSlash siteUrl @ ''/'' @ datePath post @ ''/%postname%/''"

definition publicMeta :: "(string \<rightharpoonup> string) \<Rightarrow> (string \<rightharpoonup> string)" where
  "publicMeta allMeta = (\<lambda>k. if k \<noteq> [] \<and> hd k = CHR ''_'' then None else allMeta k)"

definition buildPostResponse :: "JsEnv \<Rightarrow> Db \<Rightarrow> WpPostRow \<Rightarrow> string \<Rightarrow> string \<Rightarrow> rat option \<Rightarrow> WpPostResponse" where
  "buildPostResponse env db post context siteUrl gmtOffset =
     \<lparr>r_id = ID post,
      r_date = mysqlToRfc3339 (post_date post),
      r_date_gmt = prepareDateGmt env (post_date_gmt post) (post_date post) gmtOffset,
      r_guid = guid post,
      r_modified = orElse (mysqlToRfc3339 (post_modified post)) [],
      r_modified_gmt =
        orElse (prepareDateGmt env (post_modified_gmt post) (post_modified post) gmtOffset) [],
      r_slug = post_name post,
      r_status = post_status post,
      r_type = post_type post,
      r_link = buildPermalink siteUrl post,
      r_title_raw = post_title post,
      r_title_rendered = post_title post,
      r_content_raw = post_content post,
      r_content_rendered = (if post_password post \<noteq> [] then [] else post_content post),
      r_content_protected = (post_password post \<noteq> []),
      r_excerpt_raw = post_excerpt post,
      r_excerpt_rendered = (if post_password post \<noteq> [] then [] else post_excerpt post),
      r_excerpt_protected = (post_password post \<noteq> []),
      r_author = post_author post,
      r_featured_media =
        (case getPostMeta db (ID post) ''_thumbnail_id'' of
           None \<Rightarrow> Some 0
         | Some v \<Rightarrow> if v = [] then Some 0 else parseInt env v),
      r_comment_status = post_comment_status post,
      r_ping_status = post_ping_status post,
      r_sticky = isSticky env db (ID post),
      r_template =
        (case getPostMeta db (ID post) ''_wp_page_template'' of None \<Rightarrow> [] | Some v \<Rightarrow> v),
      r_format = getPostFormat db (ID post),
      r_meta = publicMeta (getAllPostMeta db (ID post)),
      r_categories = map term_id (getObjectTerms db (ID post) ''category''),
      r_tags = map term_id (getObjectTerms db (ID post) ''post_tag''),
      r_password = (if context = ''edit'' then Some (post_password post) else None),
      r_permalink_template =
        (if context = ''edit'' then Some (buildPermalinkTemplate siteUrl post) else None),
      r_generated_slug = (if context = ''edit'' then Some (post_name post) else None)\<rparr>"

subsection \<open>The orchestrator (handlePostUpdate)\<close>

text \<open>Step 5: the slug of a draft or pending post is made unique.\<close>

definition effectiveStatus :: "WpPostUpdateData \<Rightarrow> WpPostRow \<Rightarrow> string" where
  "effectiveStatus updateData existingPost =
     (case u_post_status updateData of
        None \<Rightarrow> post_status existingPost
      | Some st \<Rightarrow> if st \<noteq> [] then st else post_status existingPost)"

definition uniqueSlugStep :: "Db \<Rightarrow> int \<Rightarrow> WpPostRow \<Rightarrow> WpPostUpdateData \<Rightarrow> WpPostUpdateData" where
  "uniqueSlugStep db postId existingPost updateData =
     (case u_post_name updateData of
        None \<Rightarrow> updateData
      | Some name \<Rightarrow>
          if name \<noteq> [] \<and> effectiveStatus updateData existingPost \<in> set [''draft'', ''pending'']
          then updateData\<lparr>u_post_name :=
                 Some (uniquePostSlug db name postId ''publish'' (post_type existingPost)
                         (orElse (u_post_parent updateData) (post_parent existingPost)))\<rparr>
          else updateData)"

text \<open>Steps 7 and 8: the side effects, then the response built from the row read again.\<close>

definition postUpdateOperations ::
  "JsEnv \<Rightarrow> Db \<Rightarrow> int \<Rightarrow> PostUpdateInput \<Rightarrow> (WpError + WpPostResponse) \<times> Db" where
  "postUpdateOperations env db postId body =
     (let db1 = (case format body of None \<Rightarrow> db | Some f \<Rightarrow> handlePostFormat db postId f) in
      case (case featured_media body of
              None \<Rightarrow> (None, db1)
            | Some m \<Rightarrow> handleFeaturedMedia db1 m postId) of
        (Some e, db2) \<Rightarrow> (Inl e, db2)
      | (None, db2) \<Rightarrow>
          (let db3 = (case sticky body of None \<Rightarrow> db2 | Some b \<Rightarrow> handleStickyStatus env db2 postId b);
               db4 = (case template body of
                        None \<Rightarrow> db3
                      | Some t \<Rightarrow> updatePostMeta db3 postId ''_wp_page_template'' t);
               db5 = handleTerms db4 postId body;
               db6 = handleMeta db5 postId body
           in case getPostById db6 postId of
                None \<Rightarrow> (Inl \<lparr>code = ''rest_post_invalid_id'', data_status = 500\<rparr>, db6)
              | Some updatedPost \<Rightarrow>
                  (Inr (buildPostResponse env db6 updatedPost ''edit''
                          (case getOption db6 ''siteurl'' of
                             None \<Rightarrow> ''http://localhost''
                           | Some u \<Rightarrow> if u = [] then ''http://localhost'' else u)
                          (readGmtOffset env db6)),
                   db6)))"

text \<open>The result and the database as the connection holds it when the function returns.\<close>

definition handlePostUpdate ::
  "JsEnv \<Rightarrow> Db \<Rightarrow> int \<Rightarrow> PostUpdateInput \<Rightarrow> AuthenticatedUser \<Rightarrow> (WpError + WpPostResponse) \<times> Db" where
  "handlePostUpdate env db postId body user =
     (case getPostById db postId of
        None \<Rightarrow> (Inl \<lparr>code = ''rest_post_invalid_id'', data_status = 404\<rparr>, db)
      | Some existingPost \<Rightarrow>
          if post_type existingPost \<noteq> ''post''
          then (Inl \<lparr>code = ''rest_post_invalid_id'', data_status = 404\<rparr>, db)
          else (case checkPermissions db existingPost body user of
                  Some permError \<Rightarrow> (Inl permError, db)
                | None \<Rightarrow>
                    (case prepareItemForDatabase env db body existingPost user of
                       Inl e \<Rightarrow> (Inl e, db)
                     | Inr prepareResult \<Rightarrow>
                         (case updatePost env db postId
                                 (uniqueSlugStep db postId existingPost prepareResult) of
                            (updateSuccess, db1) \<Rightarrow>
                              if \<not> updateSuccess
                              then (Inl \<lparr>code = ''db_update_error'', data_status = 500\<rparr>, db1)
                              else postUpdateOperations env db1 postId body))))"

subsection \<open>Transactions (db/connection.ts) and the route (route.ts)\<close>

text \<open>
  \<open>withTransaction\<close>: the callback works on the connection; when it returns, whatever it
  returns, the transaction commits; when it throws, the transaction rolls back and the
  exception goes on to the caller.
\<close>

definition withTransaction :: "(Db \<Rightarrow> 'a Outcome \<times> Db) \<Rightarrow> Db \<Rightarrow> 'a Outcome \<times> Db" where
  "withTransaction fn db =
     (case fn db of
        (Returned result, conn) \<Rightarrow> (Returned result, conn)
      | (Threw err, conn) \<Rightarrow> (Threw err, db))"

text \<open>The request: the path parameter, the body (\<open>None\<close> when it is not JSON) and the
  \<open>authorization\<close> header.\<close>

record Request =
  postIdStr :: string
  jsonBody :: "PostUpdateInput option"
  authorization :: "string option"

record HttpResponse =
  http_status :: int
  http_body :: "WpError + WpPostResponse"

definition toResponse :: "WpError \<Rightarrow> HttpResponse" where
  "toResponse e = \<lparr>http_status = data_status e, http_body = Inl e\<rparr>"

text \<open>The callback that \<open>handleUpdate\<close> passes to \<open>withTransaction\<close>.\<close>

definition updateInTransaction ::
  "JsEnv \<Rightarrow> Request \<Rightarrow> int \<Rightarrow> PostUpdateInput \<Rightarrow> Db \<Rightarrow> (WpError + WpPostResponse) Outcome \<times> Db" where
  "updateInTransaction env request postId body conn =
     (case authenticateRequest env (authorization request) conn of
        Threw err \<Rightarrow> (Threw err, conn)
      | Returned None \<Rightarrow> (Returned (Inl \<lparr>code = ''rest_not_logged_in'', data_status = 401\<rparr>), conn)
      | Returned (Some user) \<Rightarrow>
          (case handlePostUpdate env conn postId body user of
             (result, conn1) \<Rightarrow> (Returned result, conn1)))"

text \<open>The response and the database after the request.\<close>

definition handleUpdate :: "JsEnv \<Rightarrow> Db \<Rightarrow> Request \<Rightarrow> HttpResponse \<times> Db" where
  "handleUpdate env db request =
     (case parseInt env (postIdStr request) of
        None \<Rightarrow> (toResponse \<lparr>code = ''rest_post_invalid_id'', data_status = 404\<rparr>, db)
      | Some postId \<Rightarrow>
          if postId \<le> 0
          then (toResponse \<lparr>code = ''rest_post_invalid_id'', data_status = 404\<rparr>, db)
          else (case jsonBody request of
                  None \<Rightarrow> (toResponse \<lparr>code = ''rest_invalid_json'', data_status = 400\<rparr>, db)
                | Some rawBody \<Rightarrow>
                    if \<not> postUpdateSchema_success rawBody
                    then (toResponse \<lparr>code = ''rest_invalid_param'', data_status = 400\<rparr>, db)
                    else (case withTransaction (updateInTransaction env request postId rawBody) db of
                            (Returned (Inl e), db1) \<Rightarrow> (toResponse e, db1)
                          | (Returned (Inr r), db1) \<Rightarrow> (\<lparr>http_status = 200, http_body = Inr r\<rparr>, db1)
                          | (Threw err, db1) \<Rightarrow>
                              (toResponse \<lparr>code = ''rest_internal_error'', data_status = 500\<rparr>, db1))))"

section \<open>An example site\<close>

text \<open>
  A concrete runtime and database on which the definitions above are evaluated. The
  runtime parses one date string, reads two offsets and a few integers, serializes lists
  of integers the way PHP does and unserializes the sticky registries that occur below.
  Two principals can authenticate: an administrator and a user whose only capability is
  \<open>edit_published_posts\<close>.
\<close>

text \<open>The UTC calendar of a time value: year, month (from 0) and day of the month.\<close>

definition utcCivil :: "int \<Rightarrow> int \<times> int \<times> int" where
  "utcCivil t =
     (let z = t div 86400000 + 719468;
          era = z div 146097;
          doe = z - era * 146097;
          yoe = (doe - doe div 1460 + doe div 36524 - doe div 146096) div 365;
          doy = doe - (365 * yoe + yoe div 4 - yoe div 100);
          mp = (5 * doy + 2) div 153;
          d = doy - (153 * mp + 2) div 5 + 1;
          m = (if mp < 10 then mp + 3 else mp - 9)
      in (if m \<le> 2 then yoe + era * 400 + 1 else yoe + era * 400, m - 1, d))"

definition alice :: AuthenticatedUser where
  "alice = \<lparr>user_id = 1, login = ''alice'', email = ''alice@example.org'', roles = [''administrator''],
            capabilities = [''administrator'' \<mapsto> True],
            allcaps = [''edit_posts'' \<mapsto> True, ''edit_others_posts'' \<mapsto> True,
                       ''edit_published_posts'' \<mapsto> True, ''edit_private_posts'' \<mapsto> True,
                       ''publish_posts'' \<mapsto> True]\<rparr>"

definition bob :: AuthenticatedUser where
  "bob = \<lparr>user_id = 2, login = ''bob'', email = ''bob@example.org'', roles = [''reviser''],
          capabilities = [''reviser'' \<mapsto> True],
          allcaps = [''edit_published_posts'' \<mapsto> True]\<rparr>"

definition exampleEnv :: JsEnv where
  "exampleEnv =
     \<lparr>dateParse = (\<lambda>s. if s = ''2024-01-15T10:30:00'' then Some 1705314600000 else None),
      getUTCFullYear = (\<lambda>t. fst (utcCivil t)),
      getUTCMonth = (\<lambda>t. fst (snd (utcCivil t))),
      getUTCDate = (\<lambda>t. snd (snd (utcCivil t))),
      getUTCHours = (\<lambda>t. (t div 3600000) mod 24),
      getUTCMinutes = (\<lambda>t. (t div 60000) mod 60),
      getUTCSeconds = (\<lambda>t. (t div 1000) mod 60),
      parseFloat = (\<lambda>s. if s = ''2'' then Some 2 else if s = ''5.5'' then Some (11 / 2) else None),
      parseInt = (\<lambda>s. if s = ''1'' then Some 1 else if s = ''2'' then Some 2
                       else if s = ''3'' then Some 3 else if s = ''999'' then Some 999 else None),
      serialize = (\<lambda>xs. ''a:'' @ showNat (length xs) @ '':{'' @
                     concat (map (\<lambda>(k, v). ''i:'' @ showNat k @ '';i:'' @ showInt v @ '';'')
                                 (zip [0..<length xs] xs)) @ ''}''),
      unserialize = (\<lambda>s. if s = ''a:0:{}'' then UArray []
                         else if s = ''a:1:{i:0;i:1;}'' then UArray [Some 1]
                         else if s = ''a:1:{i:0;i:3;}'' then UArray [Some 3]
                         else if s = ''a:2:{i:0;i:1;i:1;i:3;}'' then UArray [Some 1, Some 3]
                         else UnserializeThrows),
      authenticateRequest = (\<lambda>h db. if h = Some ''Basic YWxpY2U6YWJjZA=='' then Returned (Some alice)
                                   else if h = Some ''Basic Ym9iOmFiY2Q='' then Returned (Some bob)
                                   else Returned None),
      sqlNow = ''2024-03-01 14:00:00'',
      sqlUtcTimestamp = ''2024-03-01 12:00:00''\<rparr>"

definition examplePost :: "int \<Rightarrow> int \<Rightarrow> string \<Rightarrow> string \<Rightarrow> string \<Rightarrow> WpPostRow" where
  "examplePost i a st nm ty =
     \<lparr>ID = i, post_author = a, post_date = ''2024-02-01 09:00:00'',
      post_date_gmt = ''2024-02-01 07:00:00'', post_content = ''Body'', post_title = ''Title'',
      post_excerpt = [], post_status = st, post_comment_status = ''open'',
      post_ping_status = ''open'', post_password = [], post_name = nm, to_ping = [], pinged = [],
      post_modified = ''2024-02-01 09:00:00'', post_modified_gmt = ''2024-02-01 07:00:00'',
      post_content_filtered = [], post_parent = 0, guid = ''http://example.org/?p='' @ showInt i,
      post_menu_order = 0, post_type = ty, post_mime_type = [], comment_count = 0\<rparr>"

definition exampleDb :: Db where
  "exampleDb =
     \<lparr>posts = [examplePost 1 1 ''publish'' ''hello'' ''post'',
               examplePost 2 2 ''publish'' ''second'' ''post'',
               examplePost 3 1 ''draft'' ''third'' ''post''],
      postmeta = [],
      options = [(''gmt_offset'', ''2''), (''siteurl'', ''http://example.org/'')],
      terms = [],
      term_taxonomy = [],
      term_relationships = [],
      users = [1, 2]\<rparr>"

definition emptyBody :: PostUpdateInput where
  "emptyBody = \<lparr>title = None, content = None, excerpt = None, status = None, date = None,
     date_gmt = None, slug = None, author = None, password = None, featured_media = None,
     sticky = None, template = None, format = None, comment_status = None, ping_status = None,
     parent = None, menu_order = None, categories = None, tags = None, meta = None,
     unrecognized = []\<rparr>"

text \<open>Requests with the credentials of the two principals.\<close>

definition aliceRequest :: "string \<Rightarrow> PostUpdateInput \<Rightarrow> Request" where
  "aliceRequest i body =
     \<lparr>postIdStr = i, jsonBody = Some body, authorization = Some ''Basic YWxpY2U6YWJjZA==''\<rparr>"

definition bobRequest :: "string \<Rightarrow> PostUpdateInput \<Rightarrow> Request" where
  "bobRequest i body =
     \<lparr>postIdStr = i, jsonBody = Some body, authorization = Some ''Basic Ym9iOmFiY2Q=''\<rparr>"

section \<open>Properties\<close>

subsection \<open>The side effects leave the posts table alone\<close>

lemma posts_updatePostMeta [simp]: "posts (updatePostMeta db i k v) = posts db"
  by (simp add: updatePostMeta_def split: list.splits)

lemma posts_deletePostMeta [simp]: "posts (deletePostMeta db i k) = posts db"
  by (simp add: deletePostMeta_def)

lemma posts_insertTermRelationship [simp]: "posts (insertTermRelationship i tax db t) = posts db"
  by (simp add: insertTermRelationship_def split: list.splits)

lemma posts_fold_insert:
  "posts (fold (\<lambda>termId d. insertTermRelationship i tax d termId) ts db) = posts db"
  by (induction ts arbitrary: db) simp_all

lemma posts_setObjectTerms [simp]: "posts (setObjectTerms db i ts tax) = posts db"
  by (simp add: setObjectTerms_def Let_def posts_fold_insert)

lemma posts_handlePostFormat [simp]: "posts (handlePostFormat db i f) = posts db"
  by (simp add: handlePostFormat_def split: option.splits)

lemma posts_handleFeaturedMedia [simp]: "posts (snd (handleFeaturedMedia db m i)) = posts db"
  by (simp add: handleFeaturedMedia_def)

lemma posts_handleStickyStatus [simp]: "posts (handleStickyStatus env db i b) = posts db"
  by (simp add: handleStickyStatus_def Let_def setStickyPosts_def updateOption_def)

lemma posts_handleTerms [simp]: "posts (handleTerms db i body) = posts db"
  by (simp add: handleTerms_def Let_def split: option.splits)

lemma posts_fold_meta:
  "posts (fold (\<lambda>(k, v) d. case v of None \<Rightarrow> d | Some x \<Rightarrow> updatePostMeta d i k x) es db) = posts db"
  by (induction es arbitrary: db) (auto split: option.splits)

lemma posts_handleMeta [simp]: "posts (handleMeta db i body) = posts db"
  by (simp add: handleMeta_def posts_fold_meta split: option.splits)

lemma posts_postUpdateOperations: "posts (snd (postUpdateOperations env db i body)) = posts db"
proof -
  have fm: "\<And>d m e d'. handleFeaturedMedia d m i = (e, d') \<Longrightarrow> posts d' = posts d"
    using posts_handleFeaturedMedia by (metis snd_conv)
  show ?thesis
    by (auto simp: postUpdateOperations_def Let_def getPostById_def
             split: option.splits prod.splits dest!: fm)
qed

lemma getPostById_cong: "posts a = posts b \<Longrightarrow> getPostById a i = getPostById b i"
  by (simp add: getPostById_def)

lemma find_map_update:
  "find (\<lambda>r. ID r = i) (map (\<lambda>r. if ID r = i then f r else r) xs)
     = map_option f (find (\<lambda>r. ID r = i) xs)" if "\<And>r. ID (f r) = ID r"
  using that by (induction xs) auto

lemma ID_applyUpdate [simp]: "ID (applyUpdate env d r) = ID r"
  by (simp add: applyUpdate_def)

lemma getPostById_updatePost:
  "getPostById (snd (updatePost env db i d)) i = map_option (applyUpdate env d) (getPostById db i)"
  by (simp add: updatePost_def getPostById_def find_map_update)

lemma updatePost_found: "getPostById db i = Some r \<Longrightarrow> fst (updatePost env db i d)"
  by (auto simp: updatePost_def getPostById_def list_ex_iff find_Some_iff)

lemma postUpdateOperations_success:
  assumes "postUpdateOperations env db i body = (Inr resp, db')"
  shows "\<exists>updatedPost. getPostById db' i = Some updatedPost \<and>
           resp = buildPostResponse env db' updatedPost ''edit''
                    (case getOption db' ''siteurl'' of None \<Rightarrow> ''http://localhost''
                     | Some u \<Rightarrow> if u = [] then ''http://localhost'' else u)
                    (readGmtOffset env db')"
  using assms
  by (auto simp: postUpdateOperations_def Let_def split: option.splits prod.splits)

lemma handlePostUpdate_success:
  assumes "handlePostUpdate env db postId body user = (Inr resp, db')"
  shows "\<exists>existingPost prepared.
           getPostById db postId = Some existingPost
           \<and> post_type existingPost = ''post''
           \<and> checkPermissions db existingPost body user = None
           \<and> prepareItemForDatabase env db body existingPost user = Inr prepared
           \<and> getPostById db' postId
               = Some (applyUpdate env (uniqueSlugStep db postId existingPost prepared) existingPost)
           \<and> resp = buildPostResponse env db'
                 (applyUpdate env (uniqueSlugStep db postId existingPost prepared) existingPost) ''edit''
                 (case getOption db' ''siteurl'' of None \<Rightarrow> ''http://localhost''
                  | Some u \<Rightarrow> if u = [] then ''http://localhost'' else u)
                 (readGmtOffset env db')"
proof -
  from assms obtain existingPost where ep: "getPostById db postId = Some existingPost"
    by (auto simp: handlePostUpdate_def split: option.splits)
  from assms ep have ty: "post_type existingPost = ''post''"
    by (auto simp: handlePostUpdate_def split: if_splits)
  from assms ep ty have perm: "checkPermissions db existingPost body user = None"
    by (auto simp: handlePostUpdate_def split: option.splits)
  from assms ep ty perm obtain prepared
    where prep: "prepareItemForDatabase env db body existingPost user = Inr prepared"
    by (auto simp: handlePostUpdate_def split: sum.splits)
  define ud where "ud = uniqueSlugStep db postId existingPost prepared"
  obtain ok db1 where up: "updatePost env db postId ud = (ok, db1)" by fastforce
  from assms ep ty perm prep up
  have ops: "postUpdateOperations env db1 postId body = (Inr resp, db')"
    by (auto simp: handlePostUpdate_def ud_def split: if_splits)
  have "posts db' = posts db1" using posts_postUpdateOperations[of env db1 postId body] ops by simp
  then have "getPostById db' postId = getPostById db1 postId" by (rule getPostById_cong)
  also have "\<dots> = map_option (applyUpdate env ud) (getPostById db postId)"
    using getPostById_updatePost[of env db postId ud] up by simp
  finally have row: "getPostById db' postId = Some (applyUpdate env ud existingPost)"
    using ep by simp
  from postUpdateOperations_success[OF ops] row
  have "resp = buildPostResponse env db' (applyUpdate env ud existingPost) ''edit''
                 (case getOption db' ''siteurl'' of None \<Rightarrow> ''http://localhost''
                  | Some u \<Rightarrow> if u = [] then ''http://localhost'' else u)
                 (readGmtOffset env db')" by auto
  with ep ty perm prep row show ?thesis unfolding ud_def by blast
qed

subsection \<open>The column set of a successful preparation\<close>

text \<open>The status and the dates that a successful preparation puts into the column set.\<close>

definition preparedStatus :: "PostUpdateInput \<Rightarrow> WpPostRow \<Rightarrow> AuthenticatedUser \<Rightarrow> string option" where
  "preparedStatus body existingPost user =
     (case status body of
        None \<Rightarrow> None
      | Some st \<Rightarrow>
          if st \<noteq> post_status existingPost
          then (case validateAndNormalizeStatus st user of Inl e \<Rightarrow> None | Inr s \<Rightarrow> Some s)
          else None)"

lemma prepareStatus_Inr:
  "prepareStatus body ep user d = Inr d'
   \<Longrightarrow> d' = d\<lparr>u_post_status := (case preparedStatus body ep user of None \<Rightarrow> u_post_status d | Some s \<Rightarrow> Some s)\<rparr>"
  by (auto simp: prepareStatus_def preparedStatus_def split: option.splits if_splits sum.splits)

lemma prepareAuthor_Inr:
  "prepareAuthor db body user d = Inr d'
   \<Longrightarrow> d' = d\<lparr>u_post_author := (case author body of None \<Rightarrow> u_post_author d | Some a \<Rightarrow> Some a)\<rparr>"
  by (auto simp: prepareAuthor_def split: option.splits if_splits)

lemma preparePassword_Inr:
  "preparePassword env db body ep d = Inr d'
   \<Longrightarrow> d' = d\<lparr>u_post_password := (case password body of None \<Rightarrow> u_post_password d | Some a \<Rightarrow> Some a)\<rparr>"
  by (auto simp: preparePassword_def split: option.splits if_splits)

lemma getPostById_ID: "getPostById db p = Some r \<Longrightarrow> ID r = p"
  by (auto simp: getPostById_def find_Some_iff)

lemma prepareParent_Inr:
  "prepareParent db body d = Inr d'
   \<Longrightarrow> d' = d\<lparr>u_post_parent := (case parent body of None \<Rightarrow> u_post_parent d | Some a \<Rightarrow> Some a)\<rparr>"
  by (auto simp: prepareParent_def split: option.splits if_splits dest: getPostById_ID)

lemma prepareRest_eq:
  "prepareRest body d =
     d\<lparr>u_menu_order := (case menu_order body of None \<Rightarrow> u_menu_order d | Some a \<Rightarrow> Some a),
       u_comment_status := (case comment_status body of None \<Rightarrow> u_comment_status d | Some a \<Rightarrow> Some a),
       u_ping_status := (case ping_status body of None \<Rightarrow> u_ping_status d | Some a \<Rightarrow> Some a)\<rparr>"
  by (simp add: prepareRest_def Let_def split: option.splits)

lemma prepareSlug_eq:
  "prepareSlug body d = d\<lparr>u_post_name := (case slug body of None \<Rightarrow> u_post_name d | Some a \<Rightarrow> Some a)\<rparr>"
  by (simp add: prepareSlug_def split: option.splits)

definition preparedDates :: "JsEnv \<Rightarrow> Db \<Rightarrow> PostUpdateInput \<Rightarrow> (string \<times> string) option" where
  "preparedDates env db body =
     (case date body of
        Some None \<Rightarrow> Some (zeroDate, zeroDate)
      | Some (Some s) \<Rightarrow> restGetDateWithGmt env s False (readGmtOffset env db)
      | None \<Rightarrow>
          (case date_gmt body of
             Some None \<Rightarrow> Some (zeroDate, zeroDate)
           | Some (Some s) \<Rightarrow> restGetDateWithGmt env s True (readGmtOffset env db)
           | None \<Rightarrow> None))"

lemma prepareDate_eq:
  "prepareDate env db body d =
     d\<lparr>u_post_date := (case preparedDates env db body of None \<Rightarrow> u_post_date d | Some (l, u) \<Rightarrow> Some l),
       u_post_date_gmt := (case preparedDates env db body of None \<Rightarrow> u_post_date_gmt d | Some (l, u) \<Rightarrow> Some u)\<rparr>"
  by (simp add: prepareDate_def preparedDates_def setDates_def Let_def split: option.splits)

lemma prepareItemForDatabase_Inr:
  assumes "prepareItemForDatabase env db body ep user = Inr d"
  shows "d = \<lparr>u_post_title = extractRawValue (title body),
              u_post_content = extractRawValue (content body),
              u_post_excerpt = extractRawValue (excerpt body),
              u_post_status = preparedStatus body ep user,
              u_post_date = map_option fst (preparedDates env db body),
              u_post_date_gmt = map_option snd (preparedDates env db body),
              u_post_name = slug body,
              u_post_author = author body,
              u_post_password = password body,
              u_post_parent = parent body,
              u_menu_order = menu_order body,
              u_comment_status = comment_status body,
              u_ping_status = ping_status body\<rparr>"
proof -
  from assms obtain d1 where s1: "prepareStatus body ep user (prepareContent body emptyUpdateData) = Inr d1"
    by (auto simp: prepareItemForDatabase_def split: sum.splits)
  from assms s1 obtain d2 where s2: "prepareAuthor db body user (prepareSlug body (prepareDate env db body d1)) = Inr d2"
    by (auto simp: prepareItemForDatabase_def split: sum.splits)
  from assms s1 s2 obtain d3 where s3: "preparePassword env db body ep d2 = Inr d3"
    by (auto simp: prepareItemForDatabase_def split: sum.splits)
  from assms s1 s2 s3 obtain d4 where s4: "prepareParent db body d3 = Inr d4"
    and dd: "d = prepareRest body d4"
    by (auto simp: prepareItemForDatabase_def split: sum.splits option.splits)
  show ?thesis
    unfolding dd prepareRest_eq prepareParent_Inr[OF s4] preparePassword_Inr[OF s3]
      prepareAuthor_Inr[OF s2] prepareSlug_eq prepareDate_eq prepareStatus_Inr[OF s1]
    by (simp add: prepareContent_def emptyUpdateData_def split: option.splits)
qed

subsection \<open>The status normalizer\<close>

lemma validate_trash: "validateAndNormalizeStatus ''trash'' user = Inr ''draft''"
  by (simp add: validateAndNormalizeStatus_def)

lemma preparedStatus_trash:
  "status body = Some ''trash'' \<Longrightarrow> post_status ep \<noteq> ''trash''
   \<Longrightarrow> preparedStatus body ep user = Some ''draft''"
  by (simp add: preparedStatus_def validate_trash)

lemma u_post_status_uniqueSlugStep [simp]:
  "u_post_status (uniqueSlugStep db i ep d) = u_post_status d"
  by (simp add: uniqueSlugStep_def split: option.splits)

text \<open>
  C9. A patch with \<open>status = "trash"\<close> on a post whose status is not \<open>trash\<close>: the schema
  accepts \<open>trash\<close>, the normalizer does not know it and falls back to \<open>draft\<close>, so every
  column set the preparation produces carries \<open>post_status = "draft"\<close>, and after a
  successful update the row and the response have the status \<open>draft\<close>.
\<close>

theorem trash_is_saved_as_draft:
  assumes st: "status body = Some ''trash''"
    and ex: "getPostById db postId = Some existingPost"
    and nt: "post_status existingPost \<noteq> ''trash''"
  shows "''trash'' \<in> set statusEnum
         \<and> validateAndNormalizeStatus ''trash'' user = Inr ''draft''
         \<and> (\<forall>d. prepareItemForDatabase env db body existingPost user = Inr d
                \<longrightarrow> u_post_status d = Some ''draft'')
         \<and> (\<forall>resp db'. handlePostUpdate env db postId body user = (Inr resp, db')
                \<longrightarrow> map_option post_status (getPostById db' postId) = Some ''draft''
                    \<and> r_status resp = ''draft'')"
proof (intro conjI allI impI)
  show "''trash'' \<in> set statusEnum" by (simp add: statusEnum_def)
  show "validateAndNormalizeStatus ''trash'' user = Inr ''draft''" by (rule validate_trash)
next
  fix d assume "prepareItemForDatabase env db body existingPost user = Inr d"
  from prepareItemForDatabase_Inr[OF this] show "u_post_status d = Some ''draft''"
    by (simp add: preparedStatus_trash[OF st nt])
next
  fix resp db' assume ok: "handlePostUpdate env db postId body user = (Inr resp, db')"
  from handlePostUpdate_success[OF ok] ex obtain prepared where
    prep: "prepareItemForDatabase env db body existingPost user = Inr prepared"
    and row: "getPostById db' postId
               = Some (applyUpdate env (uniqueSlugStep db postId existingPost prepared) existingPost)"
    and resp: "resp = buildPostResponse env db'
                 (applyUpdate env (uniqueSlugStep db postId existingPost prepared) existingPost) ''edit''
                 (case getOption db' ''siteurl'' of None \<Rightarrow> ''http://localhost''
                  | Some u \<Rightarrow> if u = [] then ''http://localhost'' else u)
                 (readGmtOffset env db')"
    by auto
  have us: "u_post_status prepared = Some ''draft''"
    using prepareItemForDatabase_Inr[OF prep] by (simp add: preparedStatus_trash[OF st nt])
  show "map_option post_status (getPostById db' postId) = Some ''draft''"
    using row us by (simp add: applyUpdate_def orElse_def)
  show "r_status resp = ''draft''"
    unfolding resp using us by (simp add: buildPostResponse_def applyUpdate_def orElse_def)
qed

theorem trash_is_saved_as_draft_witness:
  "status (emptyBody\<lparr>status := Some ''trash''\<rparr>) = Some ''trash''
   \<and> getPostById exampleDb 1 = Some (examplePost 1 1 ''publish'' ''hello'' ''post'')
   \<and> post_status (examplePost 1 1 ''publish'' ''hello'' ''post'') \<noteq> ''trash''
   \<and> \<not> isl (fst (handlePostUpdate exampleEnv exampleDb 1 (emptyBody\<lparr>status := Some ''trash''\<rparr>) alice))
   \<and> map_option post_status
         (getPostById (snd (handlePostUpdate exampleEnv exampleDb 1
                              (emptyBody\<lparr>status := Some ''trash''\<rparr>) alice)) 1) = Some ''draft''"
proof -
  let ?b = "emptyBody\<lparr>status := Some ''trash''\<rparr>"
  have h1: "status ?b = Some ''trash''" by simp
  have h2: "getPostById exampleDb 1 = Some (examplePost 1 1 ''publish'' ''hello'' ''post'')"
    by code_simp
  have h3: "post_status (examplePost 1 1 ''publish'' ''hello'' ''post'') \<noteq> ''trash''"
    by code_simp
  have h4: "\<not> isl (fst (handlePostUpdate exampleEnv exampleDb 1 ?b alice))" by code_simp
  then obtain resp where
    r: "handlePostUpdate exampleEnv exampleDb 1 ?b alice
          = (Inr resp, snd (handlePostUpdate exampleEnv exampleDb 1 ?b alice))"
    by (cases "fst (handlePostUpdate exampleEnv exampleDb 1 ?b alice)") (auto simp: prod_eq_iff)
  from trash_is_saved_as_draft[OF h1 h2 h3, of alice exampleEnv] r
  have "map_option post_status
         (getPostById (snd (handlePostUpdate exampleEnv exampleDb 1 ?b alice)) 1) = Some ''draft''"
    by blast
  with h1 h2 h3 h4 show ?thesis by blast
qed

text \<open>
  C3. The status-change check does not answer 403 to every authenticated principal: it
  derives the code from the capability \<open>edit_posts\<close>. On the example site the second
  principal authenticates, may edit his own published post (\<open>edit_published_posts\<close>) and
  asks for \<open>status = "private"\<close>; the response is 401 \<open>rest_cannot_publish\<close>, where
  \<open>restAuthorizationRequiredCode\<close> gives 403 for an authenticated principal.
\<close>

theorem status_denial_is_401_for_authenticated_user:
  "authenticateRequest exampleEnv (authorization (bobRequest ''2'' (emptyBody\<lparr>status := Some ''private''\<rparr>)))
      exampleDb = Returned (Some bob)
   \<and> http_status (fst (handleUpdate exampleEnv exampleDb
        (bobRequest ''2'' (emptyBody\<lparr>status := Some ''private''\<rparr>)))) = 401
   \<and> isl (http_body (fst (handleUpdate exampleEnv exampleDb
        (bobRequest ''2'' (emptyBody\<lparr>status := Some ''private''\<rparr>)))))
   \<and> projl (http_body (fst (handleUpdate exampleEnv exampleDb
        (bobRequest ''2'' (emptyBody\<lparr>status := Some ''private''\<rparr>)))))
       = \<lparr>code = ''rest_cannot_publish'', data_status = 401\<rparr>
   \<and> restAuthorizationRequiredCode True = 403"
  by (simp add: exampleEnv_def bobRequest_def restAuthorizationRequiredCode_def) code_simp

text \<open>
  C2, as stated, fails: a patch with \<open>status = "bogus-value"\<close> sent by the administrator
  of the example site, who holds \<open>publish_posts\<close>, is answered with 400
  \<open>rest_invalid_param\<close> and the database stays as it was.
\<close>

theorem unrecognized_status_is_rejected_counterexample:
  "hasCap alice ''publish_posts''
   \<and> authenticateRequest exampleEnv
         (authorization (aliceRequest ''3'' (emptyBody\<lparr>status := Some ''bogus-value''\<rparr>))) exampleDb
       = Returned (Some alice)
   \<and> (case handleUpdate exampleEnv exampleDb
              (aliceRequest ''3'' (emptyBody\<lparr>status := Some ''bogus-value''\<rparr>)) of
         (r, db) \<Rightarrow>
           http_status r = 400
           \<and> isl (http_body r)
           \<and> projl (http_body r) = \<lparr>code = ''rest_invalid_param'', data_status = 400\<rparr>
           \<and> db = exampleDb)"
  by (simp add: exampleEnv_def aliceRequest_def hasCap_def alice_def) code_simp

text \<open>
  C2, amended. A patch whose status is outside the enumeration of the schema is rejected
  by the route with 400 \<open>rest_invalid_param\<close>, before authentication and with the database
  untouched, once the post id of the path is a positive integer. The normalizer, taken
  alone, maps such a status to \<open>draft\<close> for every principal.
\<close>

theorem unrecognized_status_rejected_by_schema:
  assumes "parseInt env (postIdStr request) = Some postId" and "0 < postId"
    and "jsonBody request = Some body" and "status body = Some st" and "st \<notin> set statusEnum"
  shows "handleUpdate env db request
           = (toResponse \<lparr>code = ''rest_invalid_param'', data_status = 400\<rparr>, db)
         \<and> validateAndNormalizeStatus st user = Inr ''draft''"
  using assms
  by (simp add: handleUpdate_def postUpdateSchema_success_def optAll_def
                validateAndNormalizeStatus_def statusEnum_def)

theorem unrecognized_status_rejected_by_schema_witness:
  "parseInt exampleEnv (postIdStr (aliceRequest ''3'' (emptyBody\<lparr>status := Some ''bogus-value''\<rparr>))) = Some 3
   \<and> (0::int) < 3
   \<and> jsonBody (aliceRequest ''3'' (emptyBody\<lparr>status := Some ''bogus-value''\<rparr>))
        = Some (emptyBody\<lparr>status := Some ''bogus-value''\<rparr>)
   \<and> status (emptyBody\<lparr>status := Some ''bogus-value''\<rparr>) = Some ''bogus-value''
   \<and> ''bogus-value'' \<notin> set statusEnum
   \<and> http_status (fst (handleUpdate exampleEnv exampleDb
         (aliceRequest ''3'' (emptyBody\<lparr>status := Some ''bogus-value''\<rparr>)))) = 400
   \<and> validateAndNormalizeStatus ''bogus-value'' alice = Inr ''draft''"
proof -
  let ?b = "emptyBody\<lparr>status := Some ''bogus-value''\<rparr>"
  have h1: "parseInt exampleEnv (postIdStr (aliceRequest ''3'' ?b)) = Some 3"
    by (simp add: exampleEnv_def aliceRequest_def)
  have h2: "(0::int) < 3" by simp
  have h3: "jsonBody (aliceRequest ''3'' ?b) = Some ?b" by (simp add: aliceRequest_def)
  have h4: "status ?b = Some ''bogus-value''" by simp
  have h5: "''bogus-value'' \<notin> set statusEnum" by (simp add: statusEnum_def)
  from unrecognized_status_rejected_by_schema[OF h1 h2 h3 h4 h5, of exampleDb alice]
  have "http_status (fst (handleUpdate exampleEnv exampleDb (aliceRequest ''3'' ?b))) = 400
        \<and> validateAndNormalizeStatus ''bogus-value'' alice = Inr ''draft''"
    by (simp add: toResponse_def)
  with h1 h2 h3 h4 h5 show ?thesis by blast
qed

subsection \<open>Transactions\<close>

text \<open>
  C1. An error that \<open>handlePostUpdate\<close> returns after the post row was updated does not
  abort the transaction: \<open>withTransaction\<close> rolls back only when the callback throws, and
  the callback returns the \<open>WpError\<close>. On the example site a patch with a new title and a
  \<open>featured_media\<close> that is no attachment is answered with 400
  \<open>rest_invalid_featured_media\<close>, and the database after the request has the new title and
  the refreshed modification time.
\<close>

theorem error_response_commits_post_update:
  "(case handleUpdate exampleEnv exampleDb
           (aliceRequest ''1'' (emptyBody\<lparr>title := Some (Plain ''New''), featured_media := Some 999\<rparr>)) of
      (r, db) \<Rightarrow>
        http_status r = 400
        \<and> isl (http_body r)
        \<and> projl (http_body r) = \<lparr>code = ''rest_invalid_featured_media'', data_status = 400\<rparr>
        \<and> map_option post_title (getPostById exampleDb 1) = Some ''Title''
        \<and> map_option post_modified (getPostById exampleDb 1) = Some ''2024-02-01 09:00:00''
        \<and> map_option post_title (getPostById db 1) = Some ''New''
        \<and> map_option post_modified (getPostById db 1) = Some ''2024-03-01 14:00:00'')"
  by code_simp

subsection \<open>A status that does not change\<close>

lemma prepareStatus_same:
  "status body = Some (post_status ep) \<Longrightarrow> prepareStatus body ep user d = Inr d"
  by (simp add: prepareStatus_def)

lemma prepareStatus_absent: "prepareStatus (body\<lparr>status := None\<rparr>) ep user d = Inr d"
  by (simp add: prepareStatus_def)

lemma blocks_ignore_status:
  "prepareContent (body\<lparr>status := v\<rparr>) d = prepareContent body d"
  "prepareDate env db (body\<lparr>status := v\<rparr>) d = prepareDate env db body d"
  "prepareSlug (body\<lparr>status := v\<rparr>) d = prepareSlug body d"
  "prepareAuthor db (body\<lparr>status := v\<rparr>) user d = prepareAuthor db body user d"
  "preparePassword env db (body\<lparr>status := v\<rparr>) ep d = preparePassword env db body ep d"
  "checkStickyPassword (body\<lparr>status := v\<rparr>) ep = checkStickyPassword body ep"
  "prepareParent db (body\<lparr>status := v\<rparr>) d = prepareParent db body d"
  "prepareRest (body\<lparr>status := v\<rparr>) d = prepareRest body d"
  by (simp_all add: prepareContent_def prepareDate_def prepareSlug_def prepareAuthor_def
        preparePassword_def checkStickyPassword_def prepareParent_def prepareRest_def
        cong: option.case_cong if_cong)

lemma prepareItemForDatabase_status_same:
  assumes "status body = Some (post_status ep)"
  shows "prepareItemForDatabase env db body ep user
           = prepareItemForDatabase env db (body\<lparr>status := None\<rparr>) ep user"
  unfolding prepareItemForDatabase_def prepareStatus_same[OF assms] prepareStatus_absent
    blocks_ignore_status ..

lemma checkPermissions_status: "checkPermissions db ep (body\<lparr>status := v\<rparr>) user = checkPermissions db ep body user"
  by (simp add: checkPermissions_def checkAssignTermsPermission_def cong: if_cong option.case_cong)

lemma postUpdateOperations_status:
  "postUpdateOperations env db i (body\<lparr>status := v\<rparr>) = postUpdateOperations env db i body"
  by (simp add: postUpdateOperations_def handleTerms_def handleMeta_def
        cong: option.case_cong if_cong prod.case_cong)

text \<open>
  C10. When the status of the patch equals the current status of the post, the status
  block of the preparation returns the column set as it is, for every principal: the
  normalizer is not consulted, \<open>post_status\<close> is not in the column set, and the whole
  update behaves as the same patch without the status field. In the example of the
  witness a principal without \<open>publish_posts\<close> resends \<open>publish\<close> for his published post
  and the update succeeds.
\<close>

theorem resent_status_skips_normalizer:
  assumes ex: "getPostById db postId = Some existingPost"
    and same: "status body = Some (post_status existingPost)"
  shows "prepareStatus body existingPost user d = Inr d
         \<and> prepareItemForDatabase env db body existingPost user
             = prepareItemForDatabase env db (body\<lparr>status := None\<rparr>) existingPost user
         \<and> (\<forall>d'. prepareItemForDatabase env db body existingPost user = Inr d'
                 \<longrightarrow> u_post_status d' = None)
         \<and> handlePostUpdate env db postId body user
             = handlePostUpdate env db postId (body\<lparr>status := None\<rparr>) user"
proof (intro conjI allI impI)
  show "prepareStatus body existingPost user d = Inr d" by (rule prepareStatus_same[OF same])
  show "prepareItemForDatabase env db body existingPost user
          = prepareItemForDatabase env db (body\<lparr>status := None\<rparr>) existingPost user"
    by (rule prepareItemForDatabase_status_same[OF same])
  show "handlePostUpdate env db postId body user
          = handlePostUpdate env db postId (body\<lparr>status := None\<rparr>) user"
    unfolding handlePostUpdate_def
    by (simp add: ex prepareItemForDatabase_status_same[OF same] checkPermissions_status
          postUpdateOperations_status
          cong: if_cong option.case_cong sum.case_cong prod.case_cong)
next
  fix d' assume "prepareItemForDatabase env db body existingPost user = Inr d'"
  from prepareItemForDatabase_Inr[OF this] show "u_post_status d' = None"
    by (simp add: preparedStatus_def same)
qed

theorem resent_status_skips_normalizer_witness:
  "getPostById exampleDb 2 = Some (examplePost 2 2 ''publish'' ''second'' ''post'')
   \<and> status (emptyBody\<lparr>status := Some ''publish''\<rparr>)
       = Some (post_status (examplePost 2 2 ''publish'' ''second'' ''post''))
   \<and> \<not> hasCap bob ''publish_posts''
   \<and> \<not> isl (fst (handlePostUpdate exampleEnv exampleDb 2 (emptyBody\<lparr>status := Some ''publish''\<rparr>) bob))
   \<and> map_option post_status
        (getPostById (snd (handlePostUpdate exampleEnv exampleDb 2
                             (emptyBody\<lparr>status := Some ''publish''\<rparr>) bob)) 2) = Some ''publish''"
proof -
  let ?b = "emptyBody\<lparr>status := Some ''publish''\<rparr>"
  have h1: "getPostById exampleDb 2 = Some (examplePost 2 2 ''publish'' ''second'' ''post'')"
    by code_simp
  have h2: "status ?b = Some (post_status (examplePost 2 2 ''publish'' ''second'' ''post''))"
    by (simp add: examplePost_def)
  have h3: "\<not> hasCap bob ''publish_posts''" by (simp add: hasCap_def bob_def)
  have e: "handlePostUpdate exampleEnv exampleDb 2 ?b bob
             = handlePostUpdate exampleEnv exampleDb 2 (?b\<lparr>status := None\<rparr>) bob"
    using resent_status_skips_normalizer[OF h1 h2] by blast
  have c1: "\<not> isl (fst (handlePostUpdate exampleEnv exampleDb 2 (?b\<lparr>status := None\<rparr>) bob))"
    by code_simp
  have c2: "map_option post_status
        (getPostById (snd (handlePostUpdate exampleEnv exampleDb 2 (?b\<lparr>status := None\<rparr>) bob)) 2)
          = Some ''publish''"
    by code_simp
  from h1 h2 h3 c1 c2 show ?thesis unfolding e by blast
qed

subsection \<open>The sticky registry\<close>

lemma map_of_upsertOption: "map_of (upsertOption k v l) k = Some v"
  by (induction l) auto

lemma getOption_updateOption: "getOption (updateOption db k v) k = Some v"
  by (simp add: getOption_def updateOption_def map_of_upsertOption)

lemma positiveNumbers_Some: "positiveNumbers (map Some xs) = filter (\<lambda>i. 0 < i) xs"
  by (induction xs) (auto simp: positiveNumbers_def)

lemma positiveNumbers_pos: "i \<in> set (positiveNumbers xs) \<Longrightarrow> 0 < i"
  by (auto simp: positiveNumbers_def split: option.splits if_splits)

lemma getStickyPosts_pos: "i \<in> set (getStickyPosts env db) \<Longrightarrow> 0 < i"
  by (auto simp: getStickyPosts_def split: option.splits if_splits Unserialized.splits
           dest: positiveNumbers_pos)

lemma getStickyPosts_setStickyPosts:
  assumes "unserialize env (serialize env xs) = UArray (map Some xs)"
    and "serialize env xs \<noteq> []" and "\<forall>i\<in>set xs. 0 < i"
  shows "getStickyPosts env (setStickyPosts env db xs) = xs"
  using assms
  by (simp add: getStickyPosts_def setStickyPosts_def getOption_updateOption positiveNumbers_Some)

lemma handleStickyStatus_present:
  "postId \<in> set (getStickyPosts env db) \<Longrightarrow> handleStickyStatus env db postId True = db"
  by (simp add: handleStickyStatus_def)

lemma handleStickyStatus_absent_registry:
  assumes pos: "0 < postId"
    and codec: "unserialize env (serialize env (getStickyPosts env db @ [postId]))
                  = UArray (map Some (getStickyPosts env db @ [postId]))"
    and nonempty: "serialize env (getStickyPosts env db @ [postId]) \<noteq> []"
    and absent: "postId \<notin> set (getStickyPosts env db)"
  shows "getStickyPosts env (handleStickyStatus env db postId True) = getStickyPosts env db @ [postId]"
proof -
  have all: "\<forall>i\<in>set (getStickyPosts env db @ [postId]). 0 < i"
    using pos getStickyPosts_pos by auto
  show ?thesis
    using absent getStickyPosts_setStickyPosts[OF codec nonempty all]
    by (simp add: handleStickyStatus_def)
qed

text \<open>
  C8. The sticky side effect is idempotent. For a post id that the route accepts (a
  positive integer) and a codec that reads back the registry it writes: applying
  \<open>sticky = true\<close> twice gives the database of applying it once; the registry then holds
  the id as often as before when it was there, and once when it was not, after one and
  after two applications; and \<open>sticky = false\<close> for an id that is not in the registry
  leaves the database as it is.
\<close>

theorem sticky_side_effect_is_idempotent:
  assumes pos: "0 < postId"
    and codec: "unserialize env (serialize env (getStickyPosts env db @ [postId]))
                  = UArray (map Some (getStickyPosts env db @ [postId]))"
    and nonempty: "serialize env (getStickyPosts env db @ [postId]) \<noteq> []"
  shows "handleStickyStatus env (handleStickyStatus env db postId True) postId True
           = handleStickyStatus env db postId True
         \<and> count_list (getStickyPosts env (handleStickyStatus env db postId True)) postId
             = max 1 (count_list (getStickyPosts env db) postId)
         \<and> count_list (getStickyPosts env
               (handleStickyStatus env (handleStickyStatus env db postId True) postId True)) postId
             = max 1 (count_list (getStickyPosts env db) postId)
         \<and> (postId \<notin> set (getStickyPosts env db)
              \<longrightarrow> handleStickyStatus env db postId False = db)"
proof (cases "postId \<in> set (getStickyPosts env db)")
  case True
  then have same: "handleStickyStatus env db postId True = db"
    by (rule handleStickyStatus_present)
  have "0 < count_list (getStickyPosts env db) postId"
    using True by (meson count_list_0_iff gr0I)
  then show ?thesis using True by (simp add: same max_def)
next
  case False
  have reg: "getStickyPosts env (handleStickyStatus env db postId True)
               = getStickyPosts env db @ [postId]"
    by (rule handleStickyStatus_absent_registry[OF pos codec nonempty False])
  then have "postId \<in> set (getStickyPosts env (handleStickyStatus env db postId True))"
    by simp
  then have idem: "handleStickyStatus env (handleStickyStatus env db postId True) postId True
                     = handleStickyStatus env db postId True"
    by (rule handleStickyStatus_present)
  have cnt: "count_list (getStickyPosts env db) postId = 0"
    using False by (simp add: count_list_0_iff)
  have unst: "handleStickyStatus env db postId False = db"
    using False by (simp add: handleStickyStatus_def)
  show ?thesis using False by (simp add: idem reg cnt unst)
qed

theorem sticky_side_effect_is_idempotent_witness:
  "(0::int) < 3
   \<and> unserialize exampleEnv (serialize exampleEnv (getStickyPosts exampleEnv exampleDb @ [3]))
       = UArray (map Some (getStickyPosts exampleEnv exampleDb @ [3]))
   \<and> serialize exampleEnv (getStickyPosts exampleEnv exampleDb @ [3]) \<noteq> []
   \<and> getStickyPosts exampleEnv (handleStickyStatus exampleEnv exampleDb 3 True) = [3]
   \<and> handleStickyStatus exampleEnv (handleStickyStatus exampleEnv exampleDb 3 True) 3 True
       = handleStickyStatus exampleEnv exampleDb 3 True
   \<and> handleStickyStatus exampleEnv exampleDb 2 False = exampleDb"
proof -
  have h1: "(0::int) < 3" by simp
  have h2: "unserialize exampleEnv (serialize exampleEnv (getStickyPosts exampleEnv exampleDb @ [3]))
       = UArray (map Some (getStickyPosts exampleEnv exampleDb @ [3]))" by code_simp
  have h3: "serialize exampleEnv (getStickyPosts exampleEnv exampleDb @ [3]) \<noteq> []" by code_simp
  have c1: "getStickyPosts exampleEnv (handleStickyStatus exampleEnv exampleDb 3 True) = [3]"
    by code_simp
  have c3: "handleStickyStatus exampleEnv exampleDb 2 False = exampleDb" by code_simp
  from sticky_side_effect_is_idempotent[OF h1 h2 h3]
  have "handleStickyStatus exampleEnv (handleStickyStatus exampleEnv exampleDb 3 True) 3 True
       = handleStickyStatus exampleEnv exampleDb 3 True" by blast
  with h1 h2 h3 c1 c3 show ?thesis by blast
qed

subsection \<open>Slugs\<close>

lemma uniquePostSlugLoop_spec:
  "\<not> checkSlugExists db (uniquePostSlugLoop db d i ty p slg n) ty i p
   \<and> (if checkSlugExists db slg ty i p
       then \<exists>k\<ge>n. uniquePostSlugLoop db d i ty p slg n = suffixed d k
                  \<and> (\<forall>j. n \<le> j \<and> j < k \<longrightarrow> checkSlugExists db (suffixed d j) ty i p)
       else uniquePostSlugLoop db d i ty p slg n = slg)"
proof (induction db d i ty p slg n rule: uniquePostSlugLoop.induct)
  case (1 db d i ty p slg n)
  show ?case
  proof (cases "checkSlugExists db slg ty i p")
    case False
    then show ?thesis by (simp add: uniquePostSlugLoop.simps[of db d i ty p slg n])
  next
    case True
    let ?r = "uniquePostSlugLoop db d i ty p (suffixed d n) (Suc n)"
    have eq: "uniquePostSlugLoop db d i ty p slg n = ?r"
      using True by (simp add: uniquePostSlugLoop.simps[of db d i ty p slg n])
    from "1.IH"[OF True] have free: "\<not> checkSlugExists db ?r ty i p"
      and step: "if checkSlugExists db (suffixed d n) ty i p
                 then \<exists>k\<ge>Suc n. ?r = suffixed d k
                        \<and> (\<forall>j. Suc n \<le> j \<and> j < k \<longrightarrow> checkSlugExists db (suffixed d j) ty i p)
                 else ?r = suffixed d n"
      by simp_all
    have "\<exists>k\<ge>n. ?r = suffixed d k
            \<and> (\<forall>j. n \<le> j \<and> j < k \<longrightarrow> checkSlugExists db (suffixed d j) ty i p)"
    proof (cases "checkSlugExists db (suffixed d n) ty i p")
      case False
      with step have "?r = suffixed d n" by simp
      then show ?thesis by auto
    next
      case t: True
      with step obtain k where k: "Suc n \<le> k" "?r = suffixed d k"
        "\<forall>j. Suc n \<le> j \<and> j < k \<longrightarrow> checkSlugExists db (suffixed d j) ty i p" by auto
      have "\<forall>j. n \<le> j \<and> j < k \<longrightarrow> checkSlugExists db (suffixed d j) ty i p"
      proof (intro allI impI)
        fix j assume "n \<le> j \<and> j < k"
        then show "checkSlugExists db (suffixed d j) ty i p"
          using t k(3) by (cases "j = n") auto
      qed
      with k show ?thesis by (intro exI[of _ k]) auto
    qed
    with free True show ?thesis unfolding eq by simp
  qed
qed

lemma prepare_status_valid:
  assumes "prepareItemForDatabase env db body ep user = Inr d"
    and "status body = Some st" and "st \<noteq> post_status ep"
  shows "\<exists>x. validateAndNormalizeStatus st user = Inr x"
  using assms
  by (cases "validateAndNormalizeStatus st user")
     (auto simp: prepareItemForDatabase_def prepareStatus_def split: sum.splits)

lemma validate_Inr:
  "validateAndNormalizeStatus st user = Inr x
   \<Longrightarrow> x = (if st \<in> set [''draft'', ''pending'', ''private'', ''publish'', ''future''] then st
            else ''draft'')"
  by (auto simp: validateAndNormalizeStatus_def split: if_splits)

lemma effectiveStatus_prepared:
  assumes prep: "prepareItemForDatabase env db body ep user = Inr d"
  shows "effectiveStatus d ep =
           (case status body of
              None \<Rightarrow> post_status ep
            | Some st \<Rightarrow>
                if st = post_status ep then post_status ep
                else if st \<in> set [''draft'', ''pending'', ''private'', ''publish'', ''future'']
                then st else ''draft'')"
proof (cases "status body")
  case None
  then show ?thesis
    using prepareItemForDatabase_Inr[OF prep] by (simp add: effectiveStatus_def preparedStatus_def)
next
  case (Some st)
  show ?thesis
  proof (cases "st = post_status ep")
    case True
    then show ?thesis using Some prepareItemForDatabase_Inr[OF prep]
      by (simp add: effectiveStatus_def preparedStatus_def)
  next
    case False
    from prepare_status_valid[OF prep Some False] obtain x
      where x: "validateAndNormalizeStatus st user = Inr x" by blast
    have xne: "x \<noteq> []" using validate_Inr[OF x] by (auto split: if_splits)
    have "u_post_status d = Some x"
      using prepareItemForDatabase_Inr[OF prep] Some False x by (simp add: preparedStatus_def)
    then have "effectiveStatus d ep = x" using xne by (simp add: effectiveStatus_def)
    then show ?thesis using Some False validate_Inr[OF x] by simp
  qed
qed

text \<open>
  C4. The slug of an update is made unique only when the effective status is \<open>draft\<close> or
  \<open>pending\<close>; for every other status the supplied slug is stored as it is. On the example
  site the administrator gives the published post 2 the slug of the published post 1, of
  the same type and parent: the update succeeds, the stored and the reported slug is the
  supplied one, and two published posts of one type and parent share the slug \<open>hello\<close>.
  The same patch on the draft post 3 stores \<open>hello-2\<close>.
\<close>

theorem published_slug_collision_is_stored:
  "checkSlugExists exampleDb ''hello'' ''post'' 2 0
   \<and> map_option post_type (getPostById exampleDb 2) = Some ''post''
   \<and> map_option post_parent (getPostById exampleDb 2) = Some 0
   \<and> map_option post_status (getPostById exampleDb 2) = Some ''publish''
   \<and> (case handleUpdate exampleEnv exampleDb (aliceRequest ''2'' (emptyBody\<lparr>slug := Some ''hello''\<rparr>)) of
        (r, db) \<Rightarrow> http_status r = 200
                  \<and> r_slug (projr (http_body r)) = ''hello''
                  \<and> map post_name (posts db) = [''hello'', ''hello'', ''third'']
                  \<and> map post_status (posts db) = [''publish'', ''publish'', ''draft''])
   \<and> (case handleUpdate exampleEnv exampleDb (aliceRequest ''3'' (emptyBody\<lparr>slug := Some ''hello''\<rparr>)) of
        (r, db) \<Rightarrow> http_status r = 200
                  \<and> r_slug (projr (http_body r)) = ''hello-2''
                  \<and> map post_name (posts db) = [''hello'', ''second'', ''hello-2''])"
  by code_simp

text \<open>
  Where the orchestrator does run the slug helper, the helper does what its documentation
  says. After a successful update that supplies the slug \<open>s\<close>, not empty, with the effective
  status \<open>draft\<close> or \<open>pending\<close>, the stored slug is free among the other posts of the same
  type and of the effective parent; it is \<open>s\<close> when \<open>s\<close> is free, and otherwise \<open>s-k\<close> for
  the least \<open>k \<ge> 2\<close> whose slug is free. The effective status is the current status when
  the patch has no status or repeats it, otherwise the normalized new status. With any
  other effective status, or an empty slug, the helper is not called and the stored slug
  is \<open>s\<close>, as on the example above.
\<close>

lemma slug_helper_on_draft_and_pending:
  assumes ok: "handlePostUpdate env db postId body user = (Inr resp, db')"
    and sl: "slug body = Some s"
  shows "\<exists>existingPost d row.
           getPostById db postId = Some existingPost
           \<and> prepareItemForDatabase env db body existingPost user = Inr d
           \<and> getPostById db' postId = Some row
           \<and> r_slug resp = post_name row
           \<and> effectiveStatus d existingPost =
               (case status body of
                  None \<Rightarrow> post_status existingPost
                | Some st \<Rightarrow>
                    if st = post_status existingPost then post_status existingPost
                    else if st \<in> set [''draft'', ''pending'', ''private'', ''publish'', ''future'']
                    then st else ''draft'')
           \<and> (if s \<noteq> [] \<and> effectiveStatus d existingPost \<in> set [''draft'', ''pending'']
               then \<not> checkSlugExists db (post_name row) (post_type existingPost) postId
                        (orElse (parent body) (post_parent existingPost))
                    \<and> (if checkSlugExists db s (post_type existingPost) postId
                             (orElse (parent body) (post_parent existingPost))
                        then \<exists>k\<ge>2. post_name row = s @ ''-'' @ showNat k
                               \<and> (\<forall>j. 2 \<le> j \<and> j < k \<longrightarrow>
                                     checkSlugExists db (s @ ''-'' @ showNat j) (post_type existingPost)
                                       postId (orElse (parent body) (post_parent existingPost)))
                        else post_name row = s)
               else post_name row = s)"
proof -
  from handlePostUpdate_success[OF ok] obtain ep d where
    ep: "getPostById db postId = Some ep"
    and prep: "prepareItemForDatabase env db body ep user = Inr d"
    and row: "getPostById db' postId = Some (applyUpdate env (uniqueSlugStep db postId ep d) ep)"
    and resp: "resp = buildPostResponse env db' (applyUpdate env (uniqueSlugStep db postId ep d) ep)
                 ''edit''
                 (case getOption db' ''siteurl'' of None \<Rightarrow> ''http://localhost''
                  | Some u \<Rightarrow> if u = [] then ''http://localhost'' else u)
                 (readGmtOffset env db')"
    by blast
  let ?row = "applyUpdate env (uniqueSlugStep db postId ep d) ep"
  let ?par = "orElse (parent body) (post_parent ep)"
  have nm: "u_post_name d = Some s" and pa: "u_post_parent d = parent body"
    using prepareItemForDatabase_Inr[OF prep] sl by simp_all
  have rs: "r_slug resp = post_name ?row" unfolding resp by (simp add: buildPostResponse_def)
  have name: "post_name ?row =
      (if s \<noteq> [] \<and> effectiveStatus d ep \<in> set [''draft'', ''pending'']
       then uniquePostSlugLoop db s postId (post_type ep) ?par s 2 else s)"
    using nm pa by (simp add: applyUpdate_def uniqueSlugStep_def orElse_def uniquePostSlug_def)
  have slugpart:
    "if s \<noteq> [] \<and> effectiveStatus d ep \<in> set [''draft'', ''pending'']
     then \<not> checkSlugExists db (post_name ?row) (post_type ep) postId ?par
          \<and> (if checkSlugExists db s (post_type ep) postId ?par
              then \<exists>k\<ge>2. post_name ?row = s @ ''-'' @ showNat k
                     \<and> (\<forall>j. 2 \<le> j \<and> j < k \<longrightarrow>
                           checkSlugExists db (s @ ''-'' @ showNat j) (post_type ep) postId ?par)
              else post_name ?row = s)
     else post_name ?row = s"
  proof (cases "s \<noteq> [] \<and> effectiveStatus d ep \<in> set [''draft'', ''pending'']")
    case False
    from name have "post_name ?row = s" by (simp only: if_not_P[OF False])
    then show ?thesis by (simp only: if_not_P[OF False])
  next
    case True
    from name have n: "post_name ?row = uniquePostSlugLoop db s postId (post_type ep) ?par s 2"
      by (simp only: if_P[OF True])
    have spec: "\<not> checkSlugExists db (post_name ?row) (post_type ep) postId ?par
          \<and> (if checkSlugExists db s (post_type ep) postId ?par
              then \<exists>k\<ge>2. post_name ?row = suffixed s k
                     \<and> (\<forall>j. 2 \<le> j \<and> j < k \<longrightarrow>
                           checkSlugExists db (suffixed s j) (post_type ep) postId ?par)
              else post_name ?row = s)"
      using uniquePostSlugLoop_spec[of db s postId "post_type ep" ?par s 2] unfolding n .
    show ?thesis using spec unfolding suffixed_def if_P[OF True] .
  qed
  from ep prep row rs effectiveStatus_prepared[OF prep] slugpart
  show ?thesis by blast
qed

subsection \<open>Sticky posts and passwords exclude each other\<close>

lemma prepare_conflict_is_error:
  assumes idp: "ID ep = postId"
    and conflict:
      "(sticky body = Some True \<and> ((\<exists>pw. password body = Some pw \<and> pw \<noteq> []) \<or> post_password ep \<noteq> []))
       \<or> ((\<exists>pw. password body = Some pw \<and> pw \<noteq> []) \<and> isSticky env db postId)"
  shows "\<exists>e. prepareItemForDatabase env db body ep user = Inl e"
proof (cases "prepareStatus body ep user (prepareContent body emptyUpdateData)")
  case (Inl e)
  then show ?thesis by (simp add: prepareItemForDatabase_def)
next
  case s1: (Inr d1)
  show ?thesis
  proof (cases "prepareAuthor db body user (prepareSlug body (prepareDate env db body d1))")
    case (Inl e)
    then show ?thesis using s1 by (simp add: prepareItemForDatabase_def)
  next
    case s2: (Inr d2)
    show ?thesis
    proof (cases "preparePassword env db body ep d2")
      case (Inl e)
      then show ?thesis using s1 s2 by (simp add: prepareItemForDatabase_def)
    next
      case s3: (Inr d3)
      from s3 have nopw: "\<not> (\<exists>pw. password body = Some pw \<and> pw \<noteq> [] \<and> sticky body = Some True)"
        and nost: "\<not> (\<exists>pw. password body = Some pw \<and> pw \<noteq> [] \<and> isSticky env db (ID ep))"
        by (auto simp: preparePassword_def split: option.splits if_splits)
      with conflict idp have "sticky body = Some True \<and> post_password ep \<noteq> []" by blast
      then have "checkStickyPassword body ep = Some \<lparr>code = ''rest_invalid_field'', data_status = 400\<rparr>"
        by (simp add: checkStickyPassword_def)
      then show ?thesis using s1 s2 s3 by (simp add: prepareItemForDatabase_def)
    qed
  qed
qed

lemma prepare_conflict_invalid_field:
  assumes idp: "ID ep = postId"
    and conflict:
      "(sticky body = Some True \<and> ((\<exists>pw. password body = Some pw \<and> pw \<noteq> []) \<or> post_password ep \<noteq> []))
       \<or> ((\<exists>pw. password body = Some pw \<and> pw \<noteq> []) \<and> isSticky env db postId)"
    and stok: "status body = None \<or> status body = Some (post_status ep)
               \<or> \<not> isl (validateAndNormalizeStatus (the (status body)) user)"
    and auok: "author body = None \<or> author body = Some (user_id user)
               \<or> userExists db (the (author body))"
  shows "prepareItemForDatabase env db body ep user
           = Inl \<lparr>code = ''rest_invalid_field'', data_status = 400\<rparr>"
proof -
  have "\<exists>d1. prepareStatus body ep user (prepareContent body emptyUpdateData) = Inr d1"
  proof (cases "status body")
    case None
    then show ?thesis by (simp add: prepareStatus_def)
  next
    case (Some st)
    show ?thesis
    proof (cases "st = post_status ep")
      case True
      then show ?thesis using Some by (simp add: prepareStatus_def)
    next
      case False
      with stok Some have "\<not> isl (validateAndNormalizeStatus st user)" by simp
      then obtain x where "validateAndNormalizeStatus st user = Inr x"
        by (cases "validateAndNormalizeStatus st user") auto
      then show ?thesis using Some False by (simp add: prepareStatus_def)
    qed
  qed
  then obtain d1 where s1: "prepareStatus body ep user (prepareContent body emptyUpdateData) = Inr d1"
    by blast
  have "\<exists>d2. prepareAuthor db body user (prepareSlug body (prepareDate env db body d1)) = Inr d2"
  proof (cases "author body")
    case None
    then show ?thesis by (simp add: prepareAuthor_def)
  next
    case (Some a)
    with auok have "a = user_id user \<or> userExists db a" by simp
    then show ?thesis using Some by (auto simp: prepareAuthor_def)
  qed
  then obtain d2 where s2: "prepareAuthor db body user (prepareSlug body (prepareDate env db body d1)) = Inr d2"
    by blast
  show ?thesis
  proof (cases "preparePassword env db body ep d2")
    case (Inl e)
    then have "e = \<lparr>code = ''rest_invalid_field'', data_status = 400\<rparr>"
      by (auto simp: preparePassword_def split: option.splits if_splits)
    then show ?thesis using s1 s2 Inl by (simp add: prepareItemForDatabase_def)
  next
    case s3: (Inr d3)
    from s3 have nopw: "\<not> (\<exists>pw. password body = Some pw \<and> pw \<noteq> [] \<and> sticky body = Some True)"
      and nost: "\<not> (\<exists>pw. password body = Some pw \<and> pw \<noteq> [] \<and> isSticky env db (ID ep))"
      by (auto simp: preparePassword_def split: option.splits if_splits)
    with conflict idp have "sticky body = Some True \<and> post_password ep \<noteq> []" by blast
    then have "checkStickyPassword body ep = Some \<lparr>code = ''rest_invalid_field'', data_status = 400\<rparr>"
      by (simp add: checkStickyPassword_def)
    then show ?thesis using s1 s2 s3 by (simp add: prepareItemForDatabase_def)
  qed
qed

text \<open>
  C5, as stated, fails: the rejection is not always an invalid-input error with status 400.
  The checks that run earlier answer first. On the example site the principal without
  \<open>edit_others_posts\<close> and \<open>publish_posts\<close> sends \<open>sticky = true\<close> together with a password
  for his own post and gets 403 \<open>rest_cannot_assign_sticky\<close>.
\<close>

theorem sticky_password_conflict_counterexample:
  "sticky (emptyBody\<lparr>sticky := Some True, password := Some ''secret''\<rparr>) = Some True
   \<and> password (emptyBody\<lparr>sticky := Some True, password := Some ''secret''\<rparr>) = Some ''secret''
   \<and> (case handleUpdate exampleEnv exampleDb
              (bobRequest ''2'' (emptyBody\<lparr>sticky := Some True, password := Some ''secret''\<rparr>)) of
         (r, db) \<Rightarrow>
           http_status r = 403
           \<and> isl (http_body r)
           \<and> projl (http_body r) = \<lparr>code = ''rest_cannot_assign_sticky'', data_status = 403\<rparr>)"
  by code_simp

text \<open>
  C5, amended. A patch on an existing post that sets \<open>sticky = true\<close> while the post has
  or is given a non-empty password, or sets a non-empty password while the post is in
  the sticky registry or is made sticky, is always answered with an error and the
  database stays as it was. The error is \<open>rest_invalid_field\<close> with status 400 whenever the
  request reaches the check: the post has the type \<open>post\<close>, the permission checks pass,
  the status block raises no error (no status, the current status, or one the normalizer
  grants) and the author block raises none (no author, the principal, or an existing
  user). The order of the fields in the payload plays no part: the body is a parsed
  object.
\<close>

theorem sticky_password_conflict_is_rejected:
  assumes ex: "getPostById db postId = Some existingPost"
    and conflict:
      "(sticky body = Some True
          \<and> ((\<exists>pw. password body = Some pw \<and> pw \<noteq> []) \<or> post_password existingPost \<noteq> []))
       \<or> ((\<exists>pw. password body = Some pw \<and> pw \<noteq> []) \<and> isSticky env db postId)"
  shows "(\<exists>e. handlePostUpdate env db postId body user = (Inl e, db))
         \<and> (post_type existingPost = ''post''
              \<and> checkPermissions db existingPost body user = None
              \<and> (status body = None \<or> status body = Some (post_status existingPost)
                   \<or> \<not> isl (validateAndNormalizeStatus (the (status body)) user))
              \<and> (author body = None \<or> author body = Some (user_id user)
                   \<or> userExists db (the (author body)))
            \<longrightarrow> handlePostUpdate env db postId body user
                  = (Inl \<lparr>code = ''rest_invalid_field'', data_status = 400\<rparr>, db))"
proof (intro conjI impI)
  have idp: "ID existingPost = postId" using ex by (rule getPostById_ID)
  from prepare_conflict_is_error[OF idp conflict] obtain e
    where "prepareItemForDatabase env db body existingPost user = Inl e" by blast
  then show "\<exists>e. handlePostUpdate env db postId body user = (Inl e, db)"
    using ex by (auto simp: handlePostUpdate_def split: option.splits)
next
  assume reach: "post_type existingPost = ''post''
              \<and> checkPermissions db existingPost body user = None
              \<and> (status body = None \<or> status body = Some (post_status existingPost)
                   \<or> \<not> isl (validateAndNormalizeStatus (the (status body)) user))
              \<and> (author body = None \<or> author body = Some (user_id user)
                   \<or> userExists db (the (author body)))"
  have idp: "ID existingPost = postId" using ex by (rule getPostById_ID)
  from reach have stok: "status body = None \<or> status body = Some (post_status existingPost)
                   \<or> \<not> isl (validateAndNormalizeStatus (the (status body)) user)"
    and auok: "author body = None \<or> author body = Some (user_id user)
                   \<or> userExists db (the (author body))" by blast+
  have "prepareItemForDatabase env db body existingPost user
           = Inl \<lparr>code = ''rest_invalid_field'', data_status = 400\<rparr>"
    by (rule prepare_conflict_invalid_field[OF idp conflict stok auok])
  then show "handlePostUpdate env db postId body user
                  = (Inl \<lparr>code = ''rest_invalid_field'', data_status = 400\<rparr>, db)"
    using ex reach by (simp add: handlePostUpdate_def)
qed

theorem sticky_password_conflict_is_rejected_witness:
  "getPostById exampleDb 3 = Some (examplePost 3 1 ''draft'' ''third'' ''post'')
   \<and> sticky (emptyBody\<lparr>sticky := Some True, password := Some ''secret''\<rparr>) = Some True
   \<and> password (emptyBody\<lparr>sticky := Some True, password := Some ''secret''\<rparr>) = Some ''secret''
   \<and> checkPermissions exampleDb (examplePost 3 1 ''draft'' ''third'' ''post'')
        (emptyBody\<lparr>sticky := Some True, password := Some ''secret''\<rparr>) alice = None
   \<and> handlePostUpdate exampleEnv exampleDb 3
        (emptyBody\<lparr>sticky := Some True, password := Some ''secret''\<rparr>) alice
       = (Inl \<lparr>code = ''rest_invalid_field'', data_status = 400\<rparr>, exampleDb)"
proof -
  let ?b = "emptyBody\<lparr>sticky := Some True, password := Some ''secret''\<rparr>"
  let ?p = "examplePost 3 1 ''draft'' ''third'' ''post''"
  have h1: "getPostById exampleDb 3 = Some ?p" by code_simp
  have s: "sticky ?b = Some True" by simp
  have p: "password ?b = Some ''secret''" by simp
  have h2: "(sticky ?b = Some True
          \<and> ((\<exists>pw. password ?b = Some pw \<and> pw \<noteq> []) \<or> post_password ?p \<noteq> []))
       \<or> ((\<exists>pw. password ?b = Some pw \<and> pw \<noteq> []) \<and> isSticky exampleEnv exampleDb 3)"
    by simp
  have ty: "post_type ?p = ''post''" by (simp add: examplePost_def)
  have perm: "checkPermissions exampleDb ?p ?b alice = None" by code_simp
  have st: "status ?b = None" by (simp add: emptyBody_def)
  have au: "author ?b = None" by (simp add: emptyBody_def)
  from sticky_password_conflict_is_rejected[OF h1 h2, of alice] ty perm st au
  have "handlePostUpdate exampleEnv exampleDb 3 ?b alice
       = (Inl \<lparr>code = ''rest_invalid_field'', data_status = 400\<rparr>, exampleDb)" by blast
  with h1 s p perm show ?thesis by blast
qed

subsection \<open>Dates\<close>

lemma uniqueSlugStep_dates [simp]:
  "u_post_date (uniqueSlugStep db i ep d) = u_post_date d"
  "u_post_date_gmt (uniqueSlugStep db i ep d) = u_post_date_gmt d"
  by (simp_all add: uniqueSlugStep_def split: option.splits)

lemma replaceSpaceByT_zeroDate: "replaceSpaceByT zeroDate = ''0000-00-00T00:00:00''"
  by (simp add: zeroDate_def)

text \<open>
  \<open>binaryExponent\<close> is the exponent of the binade of its argument, and \<open>roundToDouble\<close>
  returns a multiple of the spacing of that binade with a significand of at most 53 bits,
  at most half a spacing away from the exact value.
\<close>

lemma pow2_powi: "pow2 e = 2 powi e"
  by (simp add: pow2_def power_int_def field_simps)

lemma binaryExponent_bounds:
  assumes "x \<noteq> 0"
  shows "pow2 (binaryExponent x) \<le> \<bar>x\<bar> \<and> \<bar>x\<bar> < pow2 (binaryExponent x + 1)"
proof -
  obtain a b where q: "quotient_of \<bar>x\<bar> = (a, b)" by (cases "quotient_of \<bar>x\<bar>")
  have bpos: "0 < b" using quotient_of_denom_pos[OF q] .
  have xe: "\<bar>x\<bar> = of_int a / of_int b" using quotient_of_div[OF q] .
  have "0 < \<bar>x\<bar>" using assms by simp
  then have apos: "0 < a" using bpos unfolding xe by (simp add: zero_less_divide_iff)
  define la where "la = bitlen a"
  define lb where "lb = bitlen b"
  have la: "1 \<le> la" "2 ^ nat (la - 1) \<le> a" "a < 2 ^ nat la"
    using bitlen_bounds[OF apos] apos by (simp_all add: la_def bitlen_alt_def)
  have lb: "1 \<le> lb" "2 ^ nat (lb - 1) \<le> b" "b < 2 ^ nat lb"
    using bitlen_bounds[OF bpos] bpos by (simp_all add: lb_def bitlen_alt_def)
  have ra: "(2::rat) powi (la - 1) \<le> of_int a" "(of_int a :: rat) < 2 powi la"
  proof -
    have "(of_int (2 ^ nat (la - 1)) :: rat) \<le> of_int a" using la(2) by (simp only: of_int_le_iff)
    then show "(2::rat) powi (la - 1) \<le> of_int a" using la(1) by (simp add: power_int_def)
    have "(of_int a :: rat) < of_int (2 ^ nat la)" using la(3) by (simp only: of_int_less_iff)
    then show "(of_int a :: rat) < 2 powi la" using la(1) by (simp add: power_int_def)
  qed
  have rb: "(2::rat) powi (lb - 1) \<le> of_int b" "(of_int b :: rat) < 2 powi lb"
  proof -
    have "(of_int (2 ^ nat (lb - 1)) :: rat) \<le> of_int b" using lb(2) by (simp only: of_int_le_iff)
    then show "(2::rat) powi (lb - 1) \<le> of_int b" using lb(1) by (simp add: power_int_def)
    have "(of_int b :: rat) < of_int (2 ^ nat lb)" using lb(3) by (simp only: of_int_less_iff)
    then show "(of_int b :: rat) < 2 powi lb" using lb(1) by (simp add: power_int_def)
  qed
  have bp: "(0::rat) < of_int b" using bpos by simp
  have up: "\<bar>x\<bar> < 2 powi (la - lb + 1)"
  proof -
    have "(of_int a :: rat) < 2 powi la" by (rule ra(2))
    also have "\<dots> = 2 powi (la - lb + 1) * 2 powi (lb - 1)"
      by (simp add: power_int_add[symmetric])
    also have "\<dots> \<le> 2 powi (la - lb + 1) * of_int b"
      using rb(1) by (simp add: mult_left_mono)
    finally show ?thesis unfolding xe using bp by (simp add: pos_divide_less_eq)
  qed
  have lo: "(2::rat) powi (la - lb - 1) \<le> \<bar>x\<bar>"
  proof -
    have "(2::rat) powi (la - lb - 1) * of_int b \<le> 2 powi (la - lb - 1) * 2 powi lb"
      using rb(2) by (simp add: mult_left_mono)
    also have "\<dots> = 2 powi (la - 1)" by (simp add: power_int_add[symmetric])
    also have "\<dots> \<le> of_int a" by (rule ra(1))
    finally show ?thesis unfolding xe using bp by (simp add: pos_le_divide_eq)
  qed
  show ?thesis
  proof (cases "pow2 (la - lb) \<le> \<bar>x\<bar>")
    case True
    then have "binaryExponent x = la - lb"
      unfolding binaryExponent_def q by (simp add: la_def lb_def Let_def)
    then show ?thesis using True up by (simp add: pow2_powi)
  next
    case False
    then have "binaryExponent x = la - lb - 1"
      unfolding binaryExponent_def q by (simp add: la_def lb_def Let_def)
    then show ?thesis using False lo by (simp add: pow2_powi)
  qed
qed


lemma roundHalfEven_near: "\<bar>x - of_int (roundHalfEven x)\<bar> \<le> 1 / 2"
proof -
  define f where "f = \<lfloor>x\<rfloor>"
  define r where "r = x - of_int f"
  have r: "0 \<le> r" "r < 1" unfolding r_def f_def by linarith+
  have rh: "roundHalfEven x
            = (if r < 1 / 2 then f else if 1 / 2 < r then f + 1 else if even f then f else f + 1)"
    by (simp add: roundHalfEven_def Let_def f_def r_def)
  have "x - of_int (roundHalfEven x) = r \<or> x - of_int (roundHalfEven x) = r - 1"
    unfolding rh r_def by simp
  moreover have "x - of_int (roundHalfEven x) = r \<Longrightarrow> r \<le> 1 / 2"
    unfolding rh r_def by (simp split: if_splits)
  moreover have "x - of_int (roundHalfEven x) = r - 1 \<Longrightarrow> 1 / 2 \<le> r"
    unfolding rh r_def by (simp split: if_splits)
  ultimately show ?thesis using r by (auto simp: abs_if)
qed

lemma roundToDouble_nearest:
  assumes "x \<noteq> 0" and "roundToDouble x = Some y"
  shows "\<exists>m. y = of_int m * pow2 (max (binaryExponent x) (- 1022) - 52)
             \<and> \<bar>m\<bar> \<le> 2 ^ 53
             \<and> \<bar>x - y\<bar> \<le> pow2 (max (binaryExponent x) (- 1022) - 52) / 2"
proof -
  define q where "q = max (binaryExponent x) (- 1022) - 52"
  define m where "m = roundHalfEven (x / pow2 q)"
  have pq: "0 < pow2 q" by (simp add: pow2_powi)
  have y: "y = of_int m * pow2 q"
    using assms unfolding roundToDouble_def q_def[symmetric] Let_def m_def
    by (simp split: if_splits)
  have near: "\<bar>x / pow2 q - of_int m\<bar> \<le> 1 / 2" unfolding m_def by (rule roundHalfEven_near)
  have "\<bar>x - y\<bar> = \<bar>x / pow2 q - of_int m\<bar> * pow2 q"
  proof -
    have "x - y = (x / pow2 q - of_int m) * pow2 q" using pq unfolding y by (simp add: field_simps)
    then show ?thesis using pq by (simp add: abs_mult)
  qed
  also have "\<dots> \<le> 1 / 2 * pow2 q" using near pq by (simp add: mult_right_mono)
  finally have d: "\<bar>x - y\<bar> \<le> pow2 q / 2" by simp
  have "\<bar>x\<bar> < pow2 (binaryExponent x + 1)" using binaryExponent_bounds[OF assms(1)] by simp
  also have "\<dots> \<le> pow2 (q + 53)"
    unfolding pow2_powi q_def by (intro power_int_increasing) simp_all
  also have "\<dots> = 2 ^ 53 * pow2 q" unfolding pow2_powi by (simp add: power_int_add)
  finally have "\<bar>x\<bar> / pow2 q < 2 ^ 53" using pq by (simp add: pos_divide_less_eq)
  then have "\<bar>x / pow2 q\<bar> < 2 ^ 53" using pq by (simp add: abs_divide)
  with near have "\<bar>of_int m :: rat\<bar> < 2 ^ 53 + 1" by linarith
  then have "(of_int \<bar>m\<bar> :: rat) < of_int (2 ^ 53 + 1)" by simp
  then have "\<bar>m\<bar> < 2 ^ 53 + 1" by (simp only: of_int_less_iff)
  then have mb: "\<bar>m\<bar> \<le> 2 ^ 53" by simp
  from y mb d show ?thesis unfolding q_def by blast
qed

text \<open>An integer below \<open>2 ^ 53\<close> in absolute value is a double, and the operators are exact
  on integers whose result stays in that range.\<close>

lemma roundHalfEven_of_int [simp]: "roundHalfEven (of_int m) = m"
  by (simp add: roundHalfEven_def)

lemma bitlen_one: "bitlen 1 = 1"
  by (simp add: bitlen_alt_def)

lemma binaryExponent_of_int:
  assumes "n \<noteq> 0"
  shows "binaryExponent (of_int n) = bitlen \<bar>n\<bar> - 1"
proof -
  have pos: "0 < \<bar>n\<bar>" using assms by simp
  have ab: "\<bar>of_int n :: rat\<bar> = of_int \<bar>n\<bar>" by simp
  have q: "quotient_of (of_int \<bar>n\<bar>) = (\<bar>n\<bar>, 1)"
    by (simp add: of_int_rat quotient_of_Fract)
  have ge: "1 \<le> bitlen \<bar>n\<bar>" using pos by (simp add: bitlen_alt_def)
  have lo: "2 ^ nat (bitlen \<bar>n\<bar> - 1) \<le> \<bar>n\<bar>" using bitlen_bounds[OF pos] by simp
  then have "(of_int (2 ^ nat (bitlen \<bar>n\<bar> - 1)) :: rat) \<le> of_int \<bar>n\<bar>"
    by (simp only: of_int_le_iff)
  then have "pow2 (bitlen \<bar>n\<bar> - 1) \<le> of_int \<bar>n\<bar>"
    using ge by (simp add: pow2_def)
  then show ?thesis
    unfolding binaryExponent_def ab q by (simp add: bitlen_one Let_def)
qed

lemma bitlen_le_53:
  assumes "n \<noteq> 0" and "\<bar>n\<bar> < 2 ^ 53"
  shows "1 \<le> bitlen \<bar>n\<bar> \<and> bitlen \<bar>n\<bar> \<le> 53"
proof -
  have pos: "0 < \<bar>n\<bar>" using assms by simp
  have ge: "1 \<le> bitlen \<bar>n\<bar>" using pos by (simp add: bitlen_alt_def)
  have "(2::int) ^ nat (bitlen \<bar>n\<bar> - 1) \<le> \<bar>n\<bar>" using bitlen_bounds[OF pos] by simp
  with assms(2) have "(2::int) ^ nat (bitlen \<bar>n\<bar> - 1) < 2 ^ 53" by linarith
  then have "nat (bitlen \<bar>n\<bar> - 1) < 53"
    using power_less_imp_less_exp[of "2::int" "nat (bitlen \<bar>n\<bar> - 1)" 53] by simp
  with ge show ?thesis by linarith
qed

lemma roundToDouble_of_int:
  assumes "\<bar>n\<bar> < 2 ^ 53"
  shows "roundToDouble (of_int n) = Some (of_int n)"
proof (cases "n = 0")
  case True
  then show ?thesis by (simp add: roundToDouble_def)
next
  case False
  define d where "d = bitlen \<bar>n\<bar> - 1"
  have dr: "0 \<le> d" "d \<le> 52" using bitlen_le_53[OF False assms] by (simp_all add: d_def)
  have ex: "binaryExponent (of_int n) = d" using binaryExponent_of_int[OF False] by (simp add: d_def)
  define k where "k = nat (52 - d)"
  have p: "pow2 (d - 52) = 1 / 2 ^ k"
    using dr by (auto simp: pow2_def k_def)
  have quo: "(of_int n :: rat) / pow2 (d - 52) = of_int (n * 2 ^ k)"
    by (simp add: p)
  have inv: "(of_int (n * 2 ^ k) :: rat) * pow2 (d - 52) = of_int n"
    by (simp add: p)
  have nz: "(of_int n :: rat) \<noteq> 0" using False by simp
  have mx: "max d (- 1022) = d" using dr by simp
  show ?thesis
    unfolding roundToDouble_def ex Let_def mx quo roundHalfEven_of_int inv
    using nz ex dr by simp
qed

lemma numMul_ints:
  "\<bar>a * b\<bar> < 2 ^ 53 \<Longrightarrow> numMul (Some (of_int a)) (Some (of_int b)) = Some (of_int (a * b))"
  using roundToDouble_of_int[of "a * b"] by (simp add: numMul_def)

lemma numAdd_ints:
  "\<bar>a + b\<bar> < 2 ^ 53 \<Longrightarrow> numAdd (Some (of_int a)) (Some (of_int b)) = Some (of_int (a + b))"
  using roundToDouble_of_int[of "a + b"] by (simp add: numAdd_def)

lemma numSub_ints:
  "\<bar>a - b\<bar> < 2 ^ 53 \<Longrightarrow> numSub (Some (of_int a)) (Some (of_int b)) = Some (of_int (a - b))"
  using roundToDouble_of_int[of "a - b"] by (simp add: numSub_def)

text \<open>
  An offset of \<open>k\<close> quarters of an hour, up to a day either way, is \<open>k * 900000\<close>
  milliseconds without rounding, and the sum or difference with a time value is exact.
\<close>

lemma offsetMillis_quarter:
  assumes "\<bar>k\<bar> \<le> 96"
  shows "offsetMillis (Some (of_int k / 4)) = Some (of_int (k * 900000))"
proof -
  have e: "(of_int k / 4 * 60 :: rat) = of_int (k * 15)" by simp
  have a: "numMul (Some (of_int k / 4)) (Some 60) = Some (of_int (k * 15))"
    unfolding numMul_def option.case e using roundToDouble_of_int[of "k * 15"] assms by simp
  have b: "numMul (Some (of_int (k * 15))) (Some 60) = Some (of_int (k * 900))"
    using numMul_ints[of "k * 15" 60] assms by simp
  have c: "numMul (Some (of_int (k * 900))) (Some 1000) = Some (of_int (k * 900000))"
    using numMul_ints[of "k * 900" 1000] assms by simp
  show ?thesis unfolding offsetMillis_def a b c ..
qed

lemma newDate_of_int:
  "newDate (Some (of_int m)) = (if \<bar>m\<bar> \<le> 8640000000000000 then Some m else None)"
proof -
  have "(\<bar>of_int m :: rat\<bar> \<le> 8640000000000000) = (\<bar>m\<bar> \<le> 8640000000000000)"
    by (metis of_int_abs of_int_le_iff of_int_numeral)
  then show ?thesis by (simp add: newDate_def truncRat_def)
qed

lemma minusOffset_quarter:
  assumes "\<bar>k\<bar> \<le> 96" and "\<bar>t\<bar> \<le> 8640000000000000"
  shows "newDate (minusOffset t (Some (of_int k / 4)))
         = (if \<bar>t - k * 900000\<bar> \<le> 8640000000000000 then Some (t - k * 900000) else None)"
proof -
  have "numSub (Some (of_int t)) (Some (of_int (k * 900000))) = Some (of_int (t - k * 900000))"
    using numSub_ints[of t "k * 900000"] assms by simp
  then show ?thesis
    unfolding minusOffset_def offsetMillis_quarter[OF assms(1)] by (simp only: newDate_of_int)
qed

lemma plusOffset_quarter:
  assumes "\<bar>k\<bar> \<le> 96" and "\<bar>t\<bar> \<le> 8640000000000000"
  shows "newDate (plusOffset t (Some (of_int k / 4)))
         = (if \<bar>t + k * 900000\<bar> \<le> 8640000000000000 then Some (t + k * 900000) else None)"
proof -
  have "numAdd (Some (of_int t)) (Some (of_int (k * 900000))) = Some (of_int (t + k * 900000))"
    using numAdd_ints[of t "k * 900000"] assms by simp
  then show ?thesis
    unfolding plusOffset_def offsetMillis_quarter[OF assms(1)] by (simp only: newDate_of_int)
qed

text \<open>
  Other offsets round: with \<open>gmt_offset = "0.03"\<close> the product \<open>0.03 * 60 * 60 * 1000\<close> is the
  double just below 108000, and the date built from it is a millisecond short of it, in
  the second 47 and not 48.
\<close>

lemma double_offset_example:
  "roundToDouble (3 / 100) = Some (5404319552844595 / 180143985094819840)
   \<and> offsetMillis (roundToDouble (3 / 100)) = Some (7421703487487999 / 68719476736)
   \<and> newDate (plusOffset 0 (roundToDouble (3 / 100))) = Some 107999
   \<and> formatMysqlDatetime exampleEnv (newDate (plusOffset 0 (roundToDouble (3 / 100))))
       = ''1970-01-01 00:01:47''"
  by code_simp

text \<open>The response builder subtracts \<open>gmtOffset * 3600000\<close> when the GMT column is the zero
  date.\<close>

lemma prepareDateGmt_example:
  "prepareDateGmt exampleEnv zeroDate ''2024-01-15 10:30:00'' (Some 2) = Some ''2024-01-15T08:30:00''"
  by code_simp

text \<open>
  C7, as stated, fails: \<open>null\<close> on \<open>date_gmt\<close> resets nothing when the patch also has \<open>date\<close>.
  On the example site, whose offset is two hours, the administrator sends
  \<open>{date: "2024-01-15T10:30:00", date_gmt: null}\<close> for post 3; the update succeeds, the
  columns hold the local date and the date two hours earlier, and the response reports both.
\<close>

theorem null_date_gmt_beside_date_counterexample:
  "date_gmt (emptyBody\<lparr>date := Some (Some ''2024-01-15T10:30:00''), date_gmt := Some None\<rparr>) = Some None
   \<and> (case handleUpdate exampleEnv exampleDb
              (aliceRequest ''3'' (emptyBody\<lparr>date := Some (Some ''2024-01-15T10:30:00''),
                                              date_gmt := Some None\<rparr>)) of
        (r, db) \<Rightarrow>
          http_status r = 200
          \<and> map_option post_date (getPostById db 3) = Some ''2024-01-15 10:30:00''
          \<and> map_option post_date_gmt (getPostById db 3) = Some ''2024-01-15 08:30:00''
          \<and> r_date (projr (http_body r)) = Some ''2024-01-15T10:30:00''
          \<and> r_date_gmt (projr (http_body r)) = Some ''2024-01-15T08:30:00'')"
  by code_simp

text \<open>
  C7, amended. After a successful update the date columns follow exactly one path, chosen
  by \<open>date\<close> when the patch has it and by \<open>date_gmt\<close> only when \<open>date\<close> is absent; a
  \<open>date_gmt\<close> beside a \<open>date\<close>, \<open>null\<close> included, is not read. A local date that parses to
  the time \<open>t\<close> stores the format of \<open>t\<close> as \<open>post_date\<close> and the format of \<open>t\<close> minus the
  GMT offset as \<open>post_date_gmt\<close>; a GMT date stores the format of \<open>t\<close> as \<open>post_date_gmt\<close>
  and the format of \<open>t\<close> plus the offset as \<open>post_date\<close>. The offset in milliseconds is
  computed in doubles; for an offset of \<open>k\<close> quarters of an hour, at most a day either way,
  the derived time is \<open>t - k * 900000\<close>, respectively \<open>t + k * 900000\<close>, when \<open>t\<close> and the
  derived time are time values. A string that does not parse leaves both columns as they
  were. \<open>null\<close> on the field that drives the path resets both columns to the zero date, and
  the response then reports \<open>date\<close> and \<open>date_gmt\<close> as \<open>null\<close>, given that the runtime does
  not parse the zero date.
\<close>

theorem date_derivation_paths:
  assumes ok: "handlePostUpdate env db postId body user = (Inr resp, db')"
    and ex: "getPostById db postId = Some old"
    and zero: "dateParse env ''0000-00-00T00:00:00'' = None"
  shows "\<exists>new. getPostById db' postId = Some new \<and>
     (case date body of
        Some None \<Rightarrow>
          post_date new = zeroDate \<and> post_date_gmt new = zeroDate
          \<and> r_date resp = None \<and> r_date_gmt resp = None
      | Some (Some s) \<Rightarrow>
          (case dateParse env s of
             Some t \<Rightarrow>
               post_date new = formatMysqlDatetime env (Some t)
               \<and> post_date_gmt new
                   = formatMysqlDatetime env (newDate (minusOffset t (readGmtOffset env db)))
               \<and> (\<forall>k. readGmtOffset env db = Some (of_int k / 4) \<and> \<bar>k\<bar> \<le> 96
                        \<and> \<bar>t\<bar> \<le> 8640000000000000
                        \<and> \<bar>t - k * 900000\<bar> \<le> 8640000000000000
                      \<longrightarrow> post_date_gmt new = formatMysqlDatetime env (Some (t - k * 900000)))
           | None \<Rightarrow> post_date new = post_date old \<and> post_date_gmt new = post_date_gmt old)
      | None \<Rightarrow>
          (case date_gmt body of
             Some None \<Rightarrow>
               post_date new = zeroDate \<and> post_date_gmt new = zeroDate
               \<and> r_date resp = None \<and> r_date_gmt resp = None
           | Some (Some s) \<Rightarrow>
               (case dateParse env s of
                  Some t \<Rightarrow>
                    post_date new
                      = formatMysqlDatetime env (newDate (plusOffset t (readGmtOffset env db)))
                    \<and> post_date_gmt new = formatMysqlDatetime env (Some t)
                    \<and> (\<forall>k. readGmtOffset env db = Some (of_int k / 4) \<and> \<bar>k\<bar> \<le> 96
                             \<and> \<bar>t\<bar> \<le> 8640000000000000
                             \<and> \<bar>t + k * 900000\<bar> \<le> 8640000000000000
                           \<longrightarrow> post_date new = formatMysqlDatetime env (Some (t + k * 900000)))
                | None \<Rightarrow> post_date new = post_date old \<and> post_date_gmt new = post_date_gmt old)
           | None \<Rightarrow> post_date new = post_date old \<and> post_date_gmt new = post_date_gmt old))"
proof -
  from handlePostUpdate_success[OF ok] ex obtain d where
    prep: "prepareItemForDatabase env db body old user = Inr d"
    and row: "getPostById db' postId = Some (applyUpdate env (uniqueSlugStep db postId old d) old)"
    and resp: "resp = buildPostResponse env db' (applyUpdate env (uniqueSlugStep db postId old d) old)
                 ''edit''
                 (case getOption db' ''siteurl'' of None \<Rightarrow> ''http://localhost''
                  | Some u \<Rightarrow> if u = [] then ''http://localhost'' else u)
                 (readGmtOffset env db')"
    by auto
  let ?new = "applyUpdate env (uniqueSlugStep db postId old d) old"
  have pd: "post_date ?new = orElse (map_option fst (preparedDates env db body)) (post_date old)"
    and pg: "post_date_gmt ?new = orElse (map_option snd (preparedDates env db body)) (post_date_gmt old)"
    using prepareItemForDatabase_Inr[OF prep] by (simp_all add: applyUpdate_def)
  have rd: "r_date resp = mysqlToRfc3339 (post_date ?new)"
    and rg: "r_date_gmt resp
               = prepareDateGmt env (post_date_gmt ?new) (post_date ?new) (readGmtOffset env db')"
    unfolding resp by (simp_all add: buildPostResponse_def)
  have reset: "post_date ?new = zeroDate \<Longrightarrow> post_date_gmt ?new = zeroDate
               \<Longrightarrow> r_date resp = None \<and> r_date_gmt resp = None"
    unfolding rd rg
    by (simp add: mysqlToRfc3339_def prepareDateGmt_def replaceSpaceByT_zeroDate zero)
  have sub: "newDate (minusOffset t (readGmtOffset env db)) = Some (t - k * 900000)"
    if "readGmtOffset env db = Some (of_int k / 4)" "\<bar>k\<bar> \<le> 96" "\<bar>t\<bar> \<le> 8640000000000000"
       "\<bar>t - k * 900000\<bar> \<le> 8640000000000000" for t k
    unfolding that(1) minusOffset_quarter[OF that(2,3)] using that(4) by simp
  have add: "newDate (plusOffset t (readGmtOffset env db)) = Some (t + k * 900000)"
    if "readGmtOffset env db = Some (of_int k / 4)" "\<bar>k\<bar> \<le> 96" "\<bar>t\<bar> \<le> 8640000000000000"
       "\<bar>t + k * 900000\<bar> \<le> 8640000000000000" for t k
    unfolding that(1) plusOffset_quarter[OF that(2,3)] using that(4) by simp
  have "case date body of
        Some None \<Rightarrow>
          post_date ?new = zeroDate \<and> post_date_gmt ?new = zeroDate
          \<and> r_date resp = None \<and> r_date_gmt resp = None
      | Some (Some s) \<Rightarrow>
          (case dateParse env s of
             Some t \<Rightarrow>
               post_date ?new = formatMysqlDatetime env (Some t)
               \<and> post_date_gmt ?new
                   = formatMysqlDatetime env (newDate (minusOffset t (readGmtOffset env db)))
               \<and> (\<forall>k. readGmtOffset env db = Some (of_int k / 4) \<and> \<bar>k\<bar> \<le> 96
                        \<and> \<bar>t\<bar> \<le> 8640000000000000
                        \<and> \<bar>t - k * 900000\<bar> \<le> 8640000000000000
                      \<longrightarrow> post_date_gmt ?new = formatMysqlDatetime env (Some (t - k * 900000)))
           | None \<Rightarrow> post_date ?new = post_date old \<and> post_date_gmt ?new = post_date_gmt old)
      | None \<Rightarrow>
          (case date_gmt body of
             Some None \<Rightarrow>
               post_date ?new = zeroDate \<and> post_date_gmt ?new = zeroDate
               \<and> r_date resp = None \<and> r_date_gmt resp = None
           | Some (Some s) \<Rightarrow>
               (case dateParse env s of
                  Some t \<Rightarrow>
                    post_date ?new
                      = formatMysqlDatetime env (newDate (plusOffset t (readGmtOffset env db)))
                    \<and> post_date_gmt ?new = formatMysqlDatetime env (Some t)
                    \<and> (\<forall>k. readGmtOffset env db = Some (of_int k / 4) \<and> \<bar>k\<bar> \<le> 96
                             \<and> \<bar>t\<bar> \<le> 8640000000000000
                             \<and> \<bar>t + k * 900000\<bar> \<le> 8640000000000000
                           \<longrightarrow> post_date ?new = formatMysqlDatetime env (Some (t + k * 900000)))
                | None \<Rightarrow> post_date ?new = post_date old \<and> post_date_gmt ?new = post_date_gmt old)
           | None \<Rightarrow> post_date ?new = post_date old \<and> post_date_gmt ?new = post_date_gmt old)"
  proof (cases "date body")
    case None
    note dn = None
    show ?thesis
    proof (cases "date_gmt body")
      case None
      then show ?thesis using dn unfolding pd pg by (simp add: preparedDates_def orElse_def)
    next
      case (Some g)
      show ?thesis
      proof (cases g)
        case None
        have "post_date ?new = zeroDate" "post_date_gmt ?new = zeroDate"
          using dn Some None unfolding pd pg by (simp_all add: preparedDates_def orElse_def)
        with reset show ?thesis using dn Some None by simp
      next
        case (Some s)
        note gs = \<open>date_gmt body = Some g\<close> Some
        show ?thesis
        proof (cases "dateParse env s")
          case None
          then show ?thesis using dn gs unfolding pd pg
            by (simp add: preparedDates_def restGetDateWithGmt_def orElse_def)
        next
          case (Some t)
          have l: "post_date ?new
                     = formatMysqlDatetime env (newDate (plusOffset t (readGmtOffset env db)))"
            and u: "post_date_gmt ?new = formatMysqlDatetime env (Some t)"
            using dn gs Some unfolding pd pg
            by (simp_all add: preparedDates_def restGetDateWithGmt_def orElse_def)
          show ?thesis using dn gs Some l u add by simp
        qed
      qed
    qed
  next
    case (Some g)
    show ?thesis
    proof (cases g)
      case None
      have "post_date ?new = zeroDate" "post_date_gmt ?new = zeroDate"
        using Some None unfolding pd pg by (simp_all add: preparedDates_def orElse_def)
      with reset show ?thesis using Some None by simp
    next
      case (Some s)
      note ds = \<open>date body = Some g\<close> Some
      show ?thesis
      proof (cases "dateParse env s")
        case None
        then show ?thesis using ds unfolding pd pg
          by (simp add: preparedDates_def restGetDateWithGmt_def orElse_def)
      next
        case (Some t)
        have l: "post_date ?new = formatMysqlDatetime env (Some t)"
          and u: "post_date_gmt ?new
                    = formatMysqlDatetime env (newDate (minusOffset t (readGmtOffset env db)))"
          using ds Some unfolding pd pg
          by (simp_all add: preparedDates_def restGetDateWithGmt_def orElse_def)
        show ?thesis using ds Some l u sub by simp
      qed
    qed
  qed
  with row show ?thesis by blast
qed

theorem date_derivation_paths_witness:
  "\<not> isl (fst (handlePostUpdate exampleEnv exampleDb 3
                  (emptyBody\<lparr>date := Some (Some ''2024-01-15T10:30:00'')\<rparr>) alice))
   \<and> \<not> isl (fst (handlePostUpdate exampleEnv exampleDb 3
                  (emptyBody\<lparr>date_gmt := Some (Some ''2024-01-15T10:30:00'')\<rparr>) alice))
   \<and> \<not> isl (fst (handlePostUpdate exampleEnv exampleDb 3
                  (emptyBody\<lparr>date_gmt := Some None\<rparr>) alice))
   \<and> getPostById exampleDb 3 = Some (examplePost 3 1 ''draft'' ''third'' ''post'')
   \<and> dateParse exampleEnv ''0000-00-00T00:00:00'' = None
   \<and> dateParse exampleEnv ''2024-01-15T10:30:00'' = Some 1705314600000
   \<and> readGmtOffset exampleEnv exampleDb = Some (of_int 8 / 4)
   \<and> map_option post_date
        (getPostById (snd (handlePostUpdate exampleEnv exampleDb 3
           (emptyBody\<lparr>date := Some (Some ''2024-01-15T10:30:00'')\<rparr>) alice)) 3)
       = Some ''2024-01-15 10:30:00''
   \<and> map_option post_date_gmt
        (getPostById (snd (handlePostUpdate exampleEnv exampleDb 3
           (emptyBody\<lparr>date := Some (Some ''2024-01-15T10:30:00'')\<rparr>) alice)) 3)
       = Some ''2024-01-15 08:30:00''
   \<and> map_option post_date
        (getPostById (snd (handlePostUpdate exampleEnv exampleDb 3
           (emptyBody\<lparr>date_gmt := Some (Some ''2024-01-15T10:30:00'')\<rparr>) alice)) 3)
       = Some ''2024-01-15 12:30:00''
   \<and> map_option post_date_gmt
        (getPostById (snd (handlePostUpdate exampleEnv exampleDb 3
           (emptyBody\<lparr>date_gmt := Some (Some ''2024-01-15T10:30:00'')\<rparr>) alice)) 3)
       = Some ''2024-01-15 10:30:00''
   \<and> map_option post_date
        (getPostById (snd (handlePostUpdate exampleEnv exampleDb 3
           (emptyBody\<lparr>date_gmt := Some None\<rparr>) alice)) 3)
       = Some ''0000-00-00 00:00:00''
   \<and> map_option post_date_gmt
        (getPostById (snd (handlePostUpdate exampleEnv exampleDb 3
           (emptyBody\<lparr>date_gmt := Some None\<rparr>) alice)) 3)
       = Some ''0000-00-00 00:00:00''
   \<and> r_date (projr (fst (handlePostUpdate exampleEnv exampleDb 3
           (emptyBody\<lparr>date_gmt := Some None\<rparr>) alice))) = None
   \<and> r_date_gmt (projr (fst (handlePostUpdate exampleEnv exampleDb 3
           (emptyBody\<lparr>date_gmt := Some None\<rparr>) alice))) = None"
proof -
  let ?bl = "emptyBody\<lparr>date := Some (Some ''2024-01-15T10:30:00'')\<rparr>"
  let ?bg = "emptyBody\<lparr>date_gmt := Some (Some ''2024-01-15T10:30:00'')\<rparr>"
  let ?bn = "emptyBody\<lparr>date_gmt := Some None\<rparr>"
  let ?rl = "handlePostUpdate exampleEnv exampleDb 3 ?bl alice"
  let ?rg = "handlePostUpdate exampleEnv exampleDb 3 ?bg alice"
  let ?rn = "handlePostUpdate exampleEnv exampleDb 3 ?bn alice"
  have h1: "\<not> isl (fst ?rl)" by code_simp
  then obtain respl where rl: "?rl = (Inr respl, snd ?rl)"
    by (cases "fst ?rl") (auto simp: prod_eq_iff)
  have h2: "\<not> isl (fst ?rg)" by code_simp
  then obtain respg where rg: "?rg = (Inr respg, snd ?rg)"
    by (cases "fst ?rg") (auto simp: prod_eq_iff)
  have h3: "\<not> isl (fst ?rn)" by code_simp
  then obtain respn where rn: "?rn = (Inr respn, snd ?rn)"
    by (cases "fst ?rn") (auto simp: prod_eq_iff)
  have ex: "getPostById exampleDb 3 = Some (examplePost 3 1 ''draft'' ''third'' ''post'')"
    by code_simp
  have zero: "dateParse exampleEnv ''0000-00-00T00:00:00'' = None" by (simp add: exampleEnv_def)
  have ps: "dateParse exampleEnv ''2024-01-15T10:30:00'' = Some 1705314600000"
    by (simp add: exampleEnv_def)
  have off: "readGmtOffset exampleEnv exampleDb = Some (of_int 8 / 4)" by code_simp
  have f0: "formatMysqlDatetime exampleEnv (Some 1705314600000) = ''2024-01-15 10:30:00''"
    by code_simp
  have fl: "formatMysqlDatetime exampleEnv (Some (1705314600000 - 8 * 900000))
              = ''2024-01-15 08:30:00''" by code_simp
  have fg: "formatMysqlDatetime exampleEnv (Some (1705314600000 + 8 * 900000))
              = ''2024-01-15 12:30:00''" by code_simp
  have dl: "date ?bl = Some (Some ''2024-01-15T10:30:00'')" by simp
  have dg: "date ?bg = None" "date_gmt ?bg = Some (Some ''2024-01-15T10:30:00'')"
    by (simp_all add: emptyBody_def)
  have dn: "date ?bn = None" "date_gmt ?bn = Some None" by (simp_all add: emptyBody_def)
  from date_derivation_paths[OF rl ex zero] obtain new where
    n: "getPostById (snd ?rl) 3 = Some new"
    and a: "post_date new = formatMysqlDatetime exampleEnv (Some 1705314600000)"
    and b: "\<forall>k. readGmtOffset exampleEnv exampleDb = Some (of_int k / 4) \<and> \<bar>k\<bar> \<le> 96
                \<and> \<bar>1705314600000 :: int\<bar> \<le> 8640000000000000
                \<and> \<bar>1705314600000 - k * 900000\<bar> \<le> 8640000000000000
              \<longrightarrow> post_date_gmt new
                    = formatMysqlDatetime exampleEnv (Some (1705314600000 - k * 900000))"
    unfolding dl ps option.case by blast
  from b[rule_format, of 8] off
  have "post_date_gmt new = formatMysqlDatetime exampleEnv (Some (1705314600000 - 8 * 900000))"
    by simp
  with n a have c1: "map_option post_date (getPostById (snd ?rl) 3) = Some ''2024-01-15 10:30:00''"
    and c2: "map_option post_date_gmt (getPostById (snd ?rl) 3) = Some ''2024-01-15 08:30:00''"
    unfolding f0 fl by simp_all
  from date_derivation_paths[OF rg ex zero] obtain new2 where
    n2: "getPostById (snd ?rg) 3 = Some new2"
    and a2: "post_date_gmt new2 = formatMysqlDatetime exampleEnv (Some 1705314600000)"
    and b2: "\<forall>k. readGmtOffset exampleEnv exampleDb = Some (of_int k / 4) \<and> \<bar>k\<bar> \<le> 96
                \<and> \<bar>1705314600000 :: int\<bar> \<le> 8640000000000000
                \<and> \<bar>1705314600000 + k * 900000\<bar> \<le> 8640000000000000
              \<longrightarrow> post_date new2
                    = formatMysqlDatetime exampleEnv (Some (1705314600000 + k * 900000))"
    unfolding dg ps option.case by blast
  from b2[rule_format, of 8] off
  have "post_date new2 = formatMysqlDatetime exampleEnv (Some (1705314600000 + 8 * 900000))"
    by simp
  with n2 a2 have c3: "map_option post_date (getPostById (snd ?rg) 3) = Some ''2024-01-15 12:30:00''"
    and c4: "map_option post_date_gmt (getPostById (snd ?rg) 3) = Some ''2024-01-15 10:30:00''"
    unfolding f0 fg by simp_all
  from date_derivation_paths[OF rn ex zero] obtain new3 where
    n3: "getPostById (snd ?rn) 3 = Some new3"
    and a3: "post_date new3 = zeroDate" "post_date_gmt new3 = zeroDate"
            "r_date respn = None" "r_date_gmt respn = None"
    unfolding dn option.case by blast
  from n3 a3 have c5: "map_option post_date (getPostById (snd ?rn) 3) = Some ''0000-00-00 00:00:00''"
    and c6: "map_option post_date_gmt (getPostById (snd ?rn) 3) = Some ''0000-00-00 00:00:00''"
    by (simp_all add: zeroDate_def)
  have pr: "projr (fst ?rn) = respn" using rn by (metis fst_conv sum.sel(2))
  have c7: "r_date (projr (fst ?rn)) = None" and c8: "r_date_gmt (projr (fst ?rn)) = None"
    unfolding pr using a3 by simp_all
  show ?thesis
    by (intro conjI; fact)
qed

subsection \<open>The columns an update changes\<close>

lemma preparedDates_present:
  assumes "\<forall>s. date body = Some (Some s) \<or> (date body = None \<and> date_gmt body = Some (Some s))
              \<longrightarrow> dateParse env s \<noteq> None"
    and "\<not> (date body = None \<and> date_gmt body = None)"
  shows "\<exists>l u. preparedDates env db body = Some (l, u)"
  using assms
  by (auto simp: preparedDates_def restGetDateWithGmt_def split: option.splits)

text \<open>
  C6. After a successful update with a patch whose date strings parse, the post row is
  the old row with exactly the columns of the supplied fields written. Both modification
  timestamps are the current time of the database server, whatever else the patch holds.
  The title, content, excerpt, author, password, parent, menu order, comment status and
  ping status carry the supplied value when the field is there and the old value when it
  is not; the status carries the normalized new status when the patch changes it and the
  old one otherwise; both date columns carry the prepared dates when \<open>date\<close> or
  \<open>date_gmt\<close> is supplied and the old ones otherwise; the slug is the supplied one,
  possibly made unique, or the old one. The columns that no field of the patch
  corresponds to keep their values.
\<close>

theorem patch_changes_exactly_provided_columns:
  assumes ok: "handlePostUpdate env db postId body user = (Inr resp, db')"
    and ex: "getPostById db postId = Some old"
    and dates: "\<forall>s. date body = Some (Some s) \<or> (date body = None \<and> date_gmt body = Some (Some s))
                  \<longrightarrow> dateParse env s \<noteq> None"
  shows "\<exists>new d.
       getPostById db' postId = Some new
       \<and> prepareItemForDatabase env db body old user = Inr d
       \<and> post_modified new = sqlNow env
       \<and> post_modified_gmt new = sqlUtcTimestamp env
       \<and> post_title new = orElse (extractRawValue (title body)) (post_title old)
       \<and> post_content new = orElse (extractRawValue (content body)) (post_content old)
       \<and> post_excerpt new = orElse (extractRawValue (excerpt body)) (post_excerpt old)
       \<and> post_author new = orElse (author body) (post_author old)
       \<and> post_password new = orElse (password body) (post_password old)
       \<and> post_parent new = orElse (parent body) (post_parent old)
       \<and> post_menu_order new = orElse (menu_order body) (post_menu_order old)
       \<and> post_comment_status new = orElse (comment_status body) (post_comment_status old)
       \<and> post_ping_status new = orElse (ping_status body) (post_ping_status old)
       \<and> post_status new =
         (case status body of
            None \<Rightarrow> post_status old
          | Some st \<Rightarrow>
              if st = post_status old then post_status old
              else if st \<in> set [''draft'', ''pending'', ''private'', ''publish'', ''future'']
              then st else ''draft'')
       \<and> (if date body = None \<and> date_gmt body = None
          then post_date new = post_date old \<and> post_date_gmt new = post_date_gmt old
          else u_post_date d = Some (post_date new) \<and> u_post_date_gmt d = Some (post_date_gmt new))
       \<and> (case slug body of
            None \<Rightarrow> post_name new = post_name old
          | Some s \<Rightarrow>
              post_name new = s
              \<or> post_name new = uniquePostSlug db s postId ''publish'' (post_type old)
                                   (orElse (parent body) (post_parent old)))
       \<and> ID new = ID old
       \<and> to_ping new = to_ping old
       \<and> pinged new = pinged old
       \<and> post_content_filtered new = post_content_filtered old
       \<and> guid new = guid old
       \<and> post_type new = post_type old
       \<and> post_mime_type new = post_mime_type old
       \<and> comment_count new = comment_count old"
proof -
  from handlePostUpdate_success[OF ok] ex obtain d where
    prep: "prepareItemForDatabase env db body old user = Inr d"
    and row: "getPostById db' postId = Some (applyUpdate env (uniqueSlugStep db postId old d) old)"
    by auto
  let ?w = "uniqueSlugStep db postId old d"
  let ?new = "applyUpdate env ?w old"
  have fd: "u_post_title d = extractRawValue (title body)"
    "u_post_content d = extractRawValue (content body)"
    "u_post_excerpt d = extractRawValue (excerpt body)"
    "u_post_status d = preparedStatus body old user"
    "u_post_date d = map_option fst (preparedDates env db body)"
    "u_post_date_gmt d = map_option snd (preparedDates env db body)"
    "u_post_name d = slug body" "u_post_author d = author body"
    "u_post_password d = password body" "u_post_parent d = parent body"
    "u_menu_order d = menu_order body" "u_comment_status d = comment_status body"
    "u_ping_status d = ping_status body"
    using prepareItemForDatabase_Inr[OF prep] by simp_all
  have w: "u_post_title ?w = u_post_title d" "u_post_content ?w = u_post_content d"
    "u_post_excerpt ?w = u_post_excerpt d" "u_post_author ?w = u_post_author d"
    "u_post_password ?w = u_post_password d" "u_post_parent ?w = u_post_parent d"
    "u_menu_order ?w = u_menu_order d" "u_comment_status ?w = u_comment_status d"
    "u_ping_status ?w = u_ping_status d"
    by (simp_all add: uniqueSlugStep_def split: option.splits)
  have m1: "post_modified ?new = sqlNow env" by (simp add: applyUpdate_def)
  have m2: "post_modified_gmt ?new = sqlUtcTimestamp env" by (simp add: applyUpdate_def)
  have f1: "ID ?new = ID old" by (simp add: applyUpdate_def)
  have f2: "to_ping ?new = to_ping old" by (simp add: applyUpdate_def)
  have f3: "pinged ?new = pinged old" by (simp add: applyUpdate_def)
  have f4: "post_content_filtered ?new = post_content_filtered old" by (simp add: applyUpdate_def)
  have f5: "guid ?new = guid old" by (simp add: applyUpdate_def)
  have f6: "post_type ?new = post_type old" by (simp add: applyUpdate_def)
  have f7: "post_mime_type ?new = post_mime_type old" by (simp add: applyUpdate_def)
  have f8: "comment_count ?new = comment_count old" by (simp add: applyUpdate_def)
  have tt: "post_title ?new = orElse (extractRawValue (title body)) (post_title old)"
    by (simp add: applyUpdate_def w fd)
  have tc: "post_content ?new = orElse (extractRawValue (content body)) (post_content old)"
    by (simp add: applyUpdate_def w fd)
  have te: "post_excerpt ?new = orElse (extractRawValue (excerpt body)) (post_excerpt old)"
    by (simp add: applyUpdate_def w fd)
  have ta: "post_author ?new = orElse (author body) (post_author old)"
    by (simp add: applyUpdate_def w fd)
  have tp: "post_password ?new = orElse (password body) (post_password old)"
    by (simp add: applyUpdate_def w fd)
  have tpa: "post_parent ?new = orElse (parent body) (post_parent old)"
    by (simp add: applyUpdate_def w fd)
  have tm: "post_menu_order ?new = orElse (menu_order body) (post_menu_order old)"
    by (simp add: applyUpdate_def w fd)
  have tcs: "post_comment_status ?new = orElse (comment_status body) (post_comment_status old)"
    by (simp add: applyUpdate_def w fd)
  have tps: "post_ping_status ?new = orElse (ping_status body) (post_ping_status old)"
    by (simp add: applyUpdate_def w fd)
  have ps: "post_status ?new = orElse (u_post_status d) (post_status old)"
    by (simp add: applyUpdate_def)
  have st: "post_status ?new =
         (case status body of
            None \<Rightarrow> post_status old
          | Some st \<Rightarrow>
              if st = post_status old then post_status old
              else if st \<in> set [''draft'', ''pending'', ''private'', ''publish'', ''future'']
              then st else ''draft'')"
  proof (cases "status body")
    case None
    then show ?thesis unfolding ps by (simp add: fd preparedStatus_def orElse_def)
  next
    case (Some v)
    show ?thesis
    proof (cases "v = post_status old")
      case True
      then show ?thesis unfolding ps using Some by (simp add: fd preparedStatus_def orElse_def)
    next
      case False
      from prepare_status_valid[OF prep Some False] obtain x
        where x: "validateAndNormalizeStatus v user = Inr x" by blast
      have "u_post_status d = Some x" using Some False x by (simp add: fd preparedStatus_def)
      then show ?thesis unfolding ps using Some False validate_Inr[OF x] by (simp add: orElse_def)
    qed
  qed
  have pd: "post_date ?new = orElse (u_post_date d) (post_date old)"
    and pg: "post_date_gmt ?new = orElse (u_post_date_gmt d) (post_date_gmt old)"
    by (simp_all add: applyUpdate_def)
  have dt: "(if date body = None \<and> date_gmt body = None
          then post_date ?new = post_date old \<and> post_date_gmt ?new = post_date_gmt old
          else u_post_date d = Some (post_date ?new) \<and> u_post_date_gmt d = Some (post_date_gmt ?new))"
  proof (cases "date body = None \<and> date_gmt body = None")
    case True
    then have "preparedDates env db body = None" by (simp add: preparedDates_def)
    then show ?thesis unfolding pd pg using True by (simp add: fd orElse_def)
  next
    case False
    from preparedDates_present[OF dates False] obtain l u
      where "preparedDates env db body = Some (l, u)" by blast
    then have "orElse (u_post_date d) (post_date old) = l"
      and "orElse (u_post_date_gmt d) (post_date_gmt old) = u"
      and "u_post_date d = Some l" and "u_post_date_gmt d = Some u"
      by (simp_all add: fd orElse_def)
    then show ?thesis unfolding pd pg by (simp only: if_not_P[OF False])
  qed
  have pn: "post_name ?new = orElse (u_post_name ?w) (post_name old)"
    by (simp add: applyUpdate_def)
  have sl: "(case slug body of
            None \<Rightarrow> post_name ?new = post_name old
          | Some s \<Rightarrow>
              post_name ?new = s
              \<or> post_name ?new = uniquePostSlug db s postId ''publish'' (post_type old)
                                   (orElse (parent body) (post_parent old)))"
  proof (cases "slug body")
    case None
    then show ?thesis unfolding pn by (simp add: fd uniqueSlugStep_def orElse_def)
  next
    case (Some s)
    then show ?thesis unfolding pn by (simp add: fd uniqueSlugStep_def orElse_def uniquePostSlug_def)
  qed
  show ?thesis
    by (rule exI[of _ ?new], rule exI[of _ d]) (intro conjI; fact)
qed

theorem patch_changes_exactly_provided_columns_witness:
  "\<not> isl (fst (handlePostUpdate exampleEnv exampleDb 3
                  (emptyBody\<lparr>title := Some (Plain ''Hello''),
                              date := Some (Some ''2024-01-15T10:30:00'')\<rparr>) alice))
   \<and> getPostById exampleDb 3 = Some (examplePost 3 1 ''draft'' ''third'' ''post'')
   \<and> dateParse exampleEnv ''2024-01-15T10:30:00'' \<noteq> None
   \<and> map_option post_title
        (getPostById (snd (handlePostUpdate exampleEnv exampleDb 3
           (emptyBody\<lparr>title := Some (Plain ''Hello''),
                       date := Some (Some ''2024-01-15T10:30:00'')\<rparr>) alice)) 3) = Some ''Hello''
   \<and> map_option post_modified
        (getPostById (snd (handlePostUpdate exampleEnv exampleDb 3
           (emptyBody\<lparr>title := Some (Plain ''Hello''),
                       date := Some (Some ''2024-01-15T10:30:00'')\<rparr>) alice)) 3)
       = Some ''2024-03-01 14:00:00''
   \<and> map_option post_content
        (getPostById (snd (handlePostUpdate exampleEnv exampleDb 3
           (emptyBody\<lparr>title := Some (Plain ''Hello''),
                       date := Some (Some ''2024-01-15T10:30:00'')\<rparr>) alice)) 3) = Some ''Body''
   \<and> map_option post_name
        (getPostById (snd (handlePostUpdate exampleEnv exampleDb 3
           (emptyBody\<lparr>title := Some (Plain ''Hello''),
                       date := Some (Some ''2024-01-15T10:30:00'')\<rparr>) alice)) 3) = Some ''third''"
proof -
  let ?b = "emptyBody\<lparr>title := Some (Plain ''Hello''),
                       date := Some (Some ''2024-01-15T10:30:00'')\<rparr>"
  let ?old = "examplePost 3 1 ''draft'' ''third'' ''post''"
  let ?res = "handlePostUpdate exampleEnv exampleDb 3 ?b alice"
  have h1: "\<not> isl (fst ?res)" by code_simp
  then obtain resp where r: "?res = (Inr resp, snd ?res)"
    by (cases "fst ?res") (auto simp: prod_eq_iff)
  have h2: "getPostById exampleDb 3 = Some ?old" by code_simp
  have ps: "dateParse exampleEnv ''2024-01-15T10:30:00'' \<noteq> None" by (simp add: exampleEnv_def)
  have h3: "\<forall>s. date ?b = Some (Some s) \<or> (date ?b = None \<and> date_gmt ?b = Some (Some s))
              \<longrightarrow> dateParse exampleEnv s \<noteq> None"
    using ps by simp
  from patch_changes_exactly_provided_columns[OF r h2 h3] obtain new where
    n: "getPostById (snd ?res) 3 = Some new"
    and t: "post_title new = orElse (extractRawValue (title ?b)) (post_title ?old)"
    and m: "post_modified new = sqlNow exampleEnv"
    and c: "post_content new = orElse (extractRawValue (content ?b)) (post_content ?old)"
    and s: "case slug ?b of None \<Rightarrow> post_name new = post_name ?old
            | Some s \<Rightarrow> post_name new = s
                \<or> post_name new = uniquePostSlug exampleDb s 3 ''publish'' (post_type ?old)
                                     (orElse (parent ?b) (post_parent ?old))"
    by blast
  have c1: "map_option post_title (getPostById (snd ?res) 3) = Some ''Hello''"
    using n t by (simp add: extractRawValue_def orElse_def)
  have c2: "map_option post_modified (getPostById (snd ?res) 3) = Some ''2024-03-01 14:00:00''"
    using n m by (simp add: exampleEnv_def)
  have c3: "map_option post_content (getPostById (snd ?res) 3) = Some ''Body''"
    using n c by (simp add: extractRawValue_def orElse_def emptyBody_def examplePost_def)
  have c4: "map_option post_name (getPostById (snd ?res) 3) = Some ''third''"
    using n s by (simp add: emptyBody_def examplePost_def)
  from h1 h2 ps c1 c2 c3 c4 show ?thesis by blast
qed

end
